theory Spec2Isabelle
  imports Main
begin

section \<open>The declaration language of \<^verbatim>\<open>architect.d.ts\<close>\<close>

text \<open>
  The source is one ambient module, \<^verbatim>\<open>declare module "AR" { ... }\<close>, holding type
  aliases, constants and classes. It is modelled as data, the way the file is written:
  a type expression is a \<open>ty\<close>, a parameter a \<open>param\<close>, a member of a class body or of
  an object type a \<open>member\<close>, and a top-level declaration a \<open>decl\<close>.

  \<^item> Built-in and declared type names are both \<open>TName\<close> (\<^verbatim>\<open>number\<close>, \<^verbatim>\<open>Location\<close>); a string
    literal type (\<^verbatim>\<open>'parallel'\<close>) is \<open>TLit\<close>; \<^verbatim>\<open>T[]\<close> is \<open>TArray\<close>; \<^verbatim>\<open>A | B\<close> is \<open>TUnion\<close>;
    \<^verbatim>\<open>(p: T) => R\<close> is \<open>TFun\<close>; \<^verbatim>\<open>{ ... }\<close> is \<open>TObj\<close>.
  \<^item> \<open>Param name optional rest type\<close>: \<^verbatim>\<open>name?: T\<close> is optional, \<^verbatim>\<open>...name: T\<close> is a rest
    parameter, and a parameter written without annotation has type \<open>None\<close>.
  \<^item> \<open>Field doc modifiers name optional type\<close>, \<open>Method doc name params result body\<close> and
    \<open>Ctor doc params body\<close>. A method written without a result annotation has result
    \<open>None\<close>. The \<open>body\<close> is the block of statements that follows a signature, when there
    is one.
  \<^item> \<open>doc\<close> is the doc comment in front of a declaration or member, one string per
    non-empty line, without the comment markers.
  \<^item> Of a \<open>ClassDecl doc name extends implements members\<close>, \<open>extends\<close> is the superclass
    named in the class head and \<open>implements\<close> the names after \<^verbatim>\<open>implements\<close>.
  \<^item> \<open>TypeAlias doc name type\<close> is \<^verbatim>\<open>type name = type\<close>, \<open>ConstDecl doc name type\<close> is
    \<^verbatim>\<open>const name: type\<close>, and \<open>FunctionDecl doc name params result body\<close> is a function
    declared at the top level.
  \<^item> A member name written as a string literal (\<^verbatim>\<open>"LINEAR"\<close>) is recorded without its
    quotes.
\<close>

datatype modifier = Public | Readonly

datatype ty =
    TName string
  | TLit string
  | TArray ty
  | TUnion "ty list"
  | TFun "param list" ty
  | TObj "member list"
and param =
    Param string bool bool "ty option"
and member =
    Field "string list" "modifier list" string bool "ty option"
  | Method "string list" string "param list" "ty option" "string option"
  | Ctor "string list" "param list" "string option"

datatype decl =
    TypeAlias "string list" string ty
  | ConstDecl "string list" string ty
  | ClassDecl "string list" string "string option" "string list" "member list"
  | FunctionDecl "string list" string "param list" "ty option" "string option"

section \<open>The module \<^verbatim>\<open>AR\<close>\<close>

text \<open>
  One definition per top-level declaration, in the order of the file. The constant of
  the declaration \<^verbatim>\<open>X\<close> is \<open>AR_X\<close> (\<open>AR_EVENT_HANDLERS\<close> for \<^verbatim>\<open>_EVENT_HANDLERS\<close>).
\<close>

definition AR_RecognizedCallback :: decl where
  \<open>AR_RecognizedCallback =
     TypeAlias [] ''RecognizedCallback''
       (TFun
          [Param ''recognized'' False False (Some (TName ''boolean'')),
           Param ''recognitionData'' False False
             (Some
                (TObj
                   [Field [] [] ''targetInfo'' True (Some (TName ''any'')),
                    Field [] [] ''metadata'' True (Some (TName ''any''))]))]
          (TName ''void''))\<close>

definition AR_InterruptionCallback :: decl where
  \<open>AR_InterruptionCallback =
     TypeAlias [] ''InterruptionCallback''
       (TFun [Param ''suggestedInterval'' True False (Some (TName ''number''))] (TName ''void''))\<close>

definition AR_ErrorCallback :: decl where
  \<open>AR_ErrorCallback =
     TypeAlias [] ''ErrorCallback''
       (TFun
          [Param ''code'' False False (Some (TName ''number'')),
           Param ''errorObject'' False False (Some (TName ''Error''))]
          (TName ''void''))\<close>

definition AR_CONST :: decl where
  \<open>AR_CONST =
     ConstDecl [] ''CONST''
       (TObj
          [Field [] [] ''ANIMATION_GROUP_TYPE'' False
             (Some
                (TObj
                   [Field [] [] ''PARALLEL'' False (Some (TLit ''parallel'')),
                    Field [] [] ''SEQUENTIAL'' False (Some (TLit ''sequential''))])),
           Field [] [] ''CAMERA_FOCUS_MODE'' False
             (Some
                (TObj
                   [Field [] [] ''ONCE'' False (Some (TName ''string'')),
                    Field [] [] ''CONTINUOUS'' False (Some (TName ''string'')),
                    Field [] [] ''OFF'' False (Some (TName ''string''))])),
           Field [] [] ''CAMERA_POSITION'' False
             (Some
                (TObj
                   [Field [] [] ''FRONT'' False (Some (TName ''string'')),
                    Field [] [] ''BACK'' False (Some (TName ''string''))])),
           Field [] [] ''CLICK_BEHAVIOR'' False
             (Some
                (TObj
                   [Field [] [] ''CLICK'' False (Some (TName ''string'')),
                    Field [] [] ''TOUCH_UP'' False (Some (TName ''string'')),
                    Field [] [] ''TOUCH_DOWN'' False (Some (TName ''string''))])),
           Field [] [] ''CLOUD_RECOGNITION_SERVER_REGION'' False
             (Some
                (TObj
                   [Field [] [] ''AMERICAS'' False (Some (TName ''string'')),
                    Field [] [] ''CHINA'' False (Some (TName ''string'')),
                    Field [] [] ''EUROPE'' False (Some (TName ''string''))])),
           Field [] [] ''EASING_CURVE_TYPE'' False (Some (TName ''EASING_CURVE_TYPE'')),
           Field [] [] ''FONT_STYLE'' False
             (Some
                (TObj
                   [Field [] [] ''NORMAL'' False (Some (TName ''string'')),
                    Field [] [] ''BOLD'' False (Some (TName ''string'')),
                    Field [] [] ''ITALIC'' False (Some (TName ''string''))])),
           Field [] [] ''HORIZONTAL_ANCHOR'' False
             (Some
                (TObj
                   [Field [] [] ''LEFT'' False (Some (TName ''string'')),
                    Field [] [] ''CENTER'' False (Some (TName ''string'')),
                    Field [] [] ''RIGHT'' False (Some (TName ''string''))])),
           Field [] [] ''LOCATION_ACCURACY'' False
             (Some
                (TObj
                   [Field [] [] ''HIGH'' False (Some (TName ''string'')),
                    Field [] [] ''MEDIUM'' False (Some (TName ''string'')),
                    Field [] [] ''LOW'' False (Some (TName ''string''))])),
           Field [] [] ''STATE'' False
             (Some
                (TObj
                   [Field [] [] ''INITIALIZED'' False (Some (TName ''string'')),
                    Field [] [] ''LOADING'' False (Some (TName ''string'')),
                    Field [] [] ''LOADED'' False (Some (TName ''string'')),
                    Field [] [] ''PLAYING'' False (Some (TName ''string'')),
                    Field [] [] ''ERROR'' False (Some (TName ''string''))])),
           Field [] [] ''UNKNOWN_ALTITUDE'' False (Some (TName ''number'')),
           Field [] [] ''VERTICAL_ANCHOR'' False
             (Some
                (TObj
                   [Field [] [] ''TOP'' False (Some (TName ''number'')),
                    Field [] [] ''MIDDLE'' False (Some (TName ''number'')),
                    Field [] [] ''BOTTOM'' False (Some (TName ''number''))]))])\<close>

definition AR_ARchitectObject :: decl where
  \<open>AR_ARchitectObject =
     ClassDecl
       [''ARchitectObject is the base class for each object created through the ARchitect.'']
       ''ARchitectObject''
       None
       []
       [Field [] [] ''destroyed'' False (Some (TName ''boolean'')),
        Method [] ''destroy'' [] (Some (TName ''void'')) None]\<close>

definition AR_ActionArea :: decl where
  \<open>AR_ActionArea =
     ClassDecl
       [''An ActionArea defines a certain geo area where actions should be executed on enter and on exit. An ActionArea is a 2-dimensional area, altitude will be ignored. As soon as the user enters the ActionArea, onEnter() will be executed (in case the function is defined). When the user leaves the ActionArea, onExit() will be executed (in case the function is defined).'']
       ''ActionArea''
       (Some ''ARchitectObject'')
       []
       [Field [] [] ''enabled'' False (Some (TName ''boolean'')),
        Method
          [''checks if a certain location is within this ActionArea.'',
           ''@param geoLocation - the GeoLocation that should be checked.'',
           ''@returns {boolean} true if the geoLocation passed to the method is within the ActionArea, false if the geoLocation passed to the method is not in the ActionArea'']
          ''isInArea''
          [Param ''geoLocation'' False False (Some (TName ''Geolocation''))]
          (Some (TName ''boolean''))
          None,
        Field [''The trigger is executed when the user enters the ActionArea.''] [] ''onEnter''
          True
          (Some (TFun [] (TName ''void''))),
        Field [''The trigger is executed when the user leaves the ActionArea.''] [] ''onExit''
          True
          (Some (TFun [] (TName ''void'')))]\<close>

definition AR_ActionRange :: decl where
  \<open>AR_ActionRange =
     ClassDecl
       [''An ActionRange defines a circle around a certain Location. Events are fired as soon as the user enters or leaves this circle.'']
       ''ActionRange''
       (Some ''ActionArea'')
       []
       [Field [] [Public] ''location'' False (Some (TName ''Location'')),
        Field [] [Public] ''radius'' False (Some (TName ''number'')),
        Ctor
          [''@param location - a single Location defining the center point of the circle.'',
           ''@param radius - the radius of the ActionRange in meters.'',
           ''@param options - Setup-Parameters to customize additional object properties.'']
          [Param ''location'' False False (Some (TName ''Location'')),
           Param ''radius'' False False (Some (TName ''number'')),
           Param ''options'' False False
             (Some
                (TObj
                   [Field [] [] ''enabled'' False (Some (TName ''boolean'')),
                    Field [] [] ''onEnter'' True (Some (TFun [] (TName ''void''))),
                    Field [] [] ''onExit'' True (Some (TFun [] (TName ''void'')))]))]
          None]\<close>

definition AR_Drawable :: decl where
  \<open>AR_Drawable =
     ClassDecl [] ''Drawable'' (Some ''ARchitectObject'') [''DrawableOptions'']
       [Field [] [Public] ''enabled'' False (Some (TName ''boolean'')),
        Field [] [Public] ''mirrored'' False (Some (TName ''boolean'')),
        Field [] [Public] ''rotate'' False (Some (TName ''Vector3'')),
        Field [] [Public] ''rotatesToCamera'' False (Some (TName ''boolean'')),
        Field [] [Public] ''scale'' False (Some (TName ''Vector3'')),
        Field [] [Public] ''translate'' False (Some (TName ''Vector3'')),
        Field [] [] ''onClick'' True
          (Some
             (TFun [Param ''arObject'' False False (Some (TName ''ARObject''))] (TName ''void''))),
        Field [] [] ''onDragBegan'' True
          (Some
             (TFun
                [Param ''xNormalized'' False False (Some (TName ''number'')),
                 Param ''yNormalized'' False False (Some (TName ''number'')),
                 Param ''xIntersection'' False False (Some (TName ''number'')),
                 Param ''yIntersection'' False False (Some (TName ''number''))]
                (TName ''void''))),
        Field [] [] ''onDragChanged'' True
          (Some
             (TFun
                [Param ''xNormalized'' False False (Some (TName ''number'')),
                 Param ''yNormalized'' False False (Some (TName ''number'')),
                 Param ''xIntersection'' False False (Some (TName ''number'')),
                 Param ''yIntersection'' False False (Some (TName ''number''))]
                (TName ''void''))),
        Field [] [] ''onDragEnded'' True
          (Some
             (TFun
                [Param ''xNormalized'' False False (Some (TName ''number'')),
                 Param ''yNormalized'' False False (Some (TName ''number'')),
                 Param ''xIntersection'' False False (Some (TName ''number'')),
                 Param ''yIntersection'' False False (Some (TName ''number''))]
                (TName ''void''))),
        Field [] [] ''onPanBegan'' True
          (Some
             (TFun
                [Param ''xNormalized'' False False (Some (TName ''number'')),
                 Param ''yNormalized'' False False (Some (TName ''number''))]
                (TName ''void''))),
        Field [] [] ''onPanChanged'' True
          (Some
             (TFun
                [Param ''xNormalized'' False False (Some (TName ''number'')),
                 Param ''yNormalized'' False False (Some (TName ''number''))]
                (TName ''void''))),
        Field [] [] ''onPanEnded'' True
          (Some
             (TFun
                [Param ''xNormalized'' False False (Some (TName ''number'')),
                 Param ''yNormalized'' False False (Some (TName ''number''))]
                (TName ''void''))),
        Field [] [] ''onRotationBegan'' True
          (Some (TFun [Param ''angle'' False False (Some (TName ''number''))] (TName ''void''))),
        Field [] [] ''onRotationChanged'' True
          (Some (TFun [Param ''angle'' False False (Some (TName ''number''))] (TName ''void''))),
        Field [] [] ''onRotationEnded'' True
          (Some (TFun [Param ''angle'' False False (Some (TName ''number''))] (TName ''void''))),
        Field [] [] ''onScaleBegan'' True
          (Some (TFun [Param ''scale'' False False (Some (TName ''number''))] (TName ''void''))),
        Field [] [] ''onScaleChanged'' True
          (Some (TFun [Param ''scale'' False False (Some (TName ''number''))] (TName ''void''))),
        Field [] [] ''onscaleEnded'' True
          (Some (TFun [Param ''scale'' False False (Some (TName ''number''))] (TName ''void'')))]\<close>

definition AR_Drawable2D :: decl where
  \<open>AR_Drawable2D =
     ClassDecl [] ''Drawable2D'' (Some ''Drawable'') [''Drawable2DOptions'']
       [Field [] [] ''horizontalAnchor'' False (Some (TName ''number'')),
        Field [] [] ''verticalAnchor'' False (Some (TName ''number'')),
        Field [] [] ''zOrder'' False (Some (TName ''number'')),
        Field [] [] ''opacity'' False (Some (TName ''number'')),
        Method
          [''Returns the BoundingRectangle for this Drawable2D. In case of an error, null will be returned.'',
           ''@returns {BoundingRectangle} - the BoundingRectangle for the Drawable2D.'']
          ''getBoundingRectangle''
          []
          (Some (TName ''BoundingRectangle''))
          None]\<close>

definition AR_ImageDrawable :: decl where
  \<open>AR_ImageDrawable =
     ClassDecl [] ''ImageDrawable'' (Some ''Drawable2D'') []
       [Field [] [Public] ''height'' False (Some (TName ''number'')),
        Field [] [Public] ''imageResource'' False (Some (TName ''ImageResource'')),
        Ctor []
          [Param ''imageResource'' False False (Some (TName ''ImageResource'')),
           Param ''height'' False False (Some (TName ''number'')),
           Param ''options'' False False (Some (TName ''Drawable2DOptions''))]
          None]\<close>

definition AR_AnimatedImageDrawable :: decl where
  \<open>AR_AnimatedImageDrawable =
     ClassDecl [] ''AnimatedImageDrawable'' (Some ''ImageDrawable'') []
       [Ctor []
          [Param ''imageResource'' False False (Some (TName ''ImageResource'')),
           Param ''height'' False False (Some (TName ''number'')),
           Param ''keyFrameWidth'' False False (Some (TName ''number'')),
           Param ''keyFrameHeight'' False False (Some (TName ''number'')),
           Param ''options'' True False (Some (TName ''Drawable2DOptions''))]
          None,
        Method [] ''animate''
          [Param ''keyFrames'' False False (Some (TArray (TName ''number''))),
           Param ''duration'' False False (Some (TName ''number'')),
           Param ''loopTimes'' True False (Some (TName ''number''))]
          None
          None,
        Method [] ''setKeyFrame'' [Param ''keyFramePos'' False False (Some (TName ''number''))]
          None
          None]\<close>

definition AR_ARObject :: decl where
  \<open>AR_ARObject =
     ClassDecl [] ''ARObject'' (Some ''ARchitectObject'') []
       [Field [] [] ''drawables'' False (Some (TName ''ARObjectDrawables'')),
        Field [] [] ''enabled'' False (Some (TName ''boolean'')),
        Field [] [] ''renderingOrder'' False (Some (TName ''number'')),
        Method [] ''isVisible'' [] (Some (TName ''boolean'')) None,
        Field [] [] ''onClick'' True
          (Some
             (TFun [Param ''arObject'' False False (Some (TName ''ARObject''))] (TName ''void''))),
        Field [] [] ''onDragBegan'' True
          (Some
             (TFun
                [Param ''xNormalized'' False False (Some (TName ''number'')),
                 Param ''yNormalized'' False False (Some (TName ''number'')),
                 Param ''xIntersection'' False False (Some (TName ''number'')),
                 Param ''yIntersection'' False False (Some (TName ''number''))]
                (TName ''void''))),
        Field [] [] ''onDragChanged'' True
          (Some
             (TFun
                [Param ''xNormalized'' False False (Some (TName ''number'')),
                 Param ''yNormalized'' False False (Some (TName ''number'')),
                 Param ''xIntersection'' False False (Some (TName ''number'')),
                 Param ''yIntersection'' False False (Some (TName ''number''))]
                (TName ''void''))),
        Field [] [] ''onDragEnded'' True
          (Some
             (TFun
                [Param ''xNormalized'' False False (Some (TName ''number'')),
                 Param ''yNormalized'' False False (Some (TName ''number'')),
                 Param ''xIntersection'' False False (Some (TName ''number'')),
                 Param ''yIntersection'' False False (Some (TName ''number''))]
                (TName ''void''))),
        Field [] [] ''onPanBegan'' True
          (Some
             (TFun
                [Param ''xNormalized'' False False (Some (TName ''number'')),
                 Param ''yNormalized'' False False (Some (TName ''number''))]
                (TName ''void''))),
        Field [] [] ''onPanChanged'' True
          (Some
             (TFun
                [Param ''xNormalized'' False False (Some (TName ''number'')),
                 Param ''yNormalized'' False False (Some (TName ''number''))]
                (TName ''void''))),
        Field [] [] ''onPanEnded'' True
          (Some
             (TFun
                [Param ''xNormalized'' False False (Some (TName ''number'')),
                 Param ''yNormalized'' False False (Some (TName ''number''))]
                (TName ''void''))),
        Field [] [] ''onRotationBegan'' True
          (Some (TFun [Param ''angle'' False False (Some (TName ''number''))] (TName ''void''))),
        Field [] [] ''onRotationChanged'' True
          (Some (TFun [Param ''angle'' False False (Some (TName ''number''))] (TName ''void''))),
        Field [] [] ''onRotationEnded'' True
          (Some (TFun [Param ''angle'' False False (Some (TName ''number''))] (TName ''void''))),
        Field [] [] ''onScaleBegan'' True
          (Some (TFun [Param ''scale'' False False (Some (TName ''number''))] (TName ''void''))),
        Field [] [] ''onScaleChanged'' True
          (Some (TFun [Param ''scale'' False False (Some (TName ''number''))] (TName ''void''))),
        Field [] [] ''onscaleEnded'' True
          (Some (TFun [Param ''scale'' False False (Some (TName ''number''))] (TName ''void'')))]\<close>

definition AR_ARObjectDrawables :: decl where
  \<open>AR_ARObjectDrawables =
     ClassDecl [] ''ARObjectDrawables'' None []
       [Field [] [] ''cam'' False (Some (TArray (TName ''Drawable''))),
        Field [] [] ''addCamDrawable'' False
          (Some
             (TFun
                [Param ''drawable'' False False
                   (Some (TUnion [TName ''Drawable'', TArray (TName ''Drawable'')])),
                 Param ''position'' False False (Some (TName ''number''))]
                (TName ''void''))),
        Field [] [] ''removeCamDrawable'' False
          (Some
             (TFun
                [Param ''drawableOrPosition'' False False
                   (Some
                      (TUnion
                         [TName ''Drawable'', TArray (TName ''Drawable''), TName ''number'']))]
                (TName ''void'')))]\<close>

definition AR_Animation :: decl where
  \<open>AR_Animation =
     ClassDecl [] ''Animation'' (Some ''ARchitectObject'') []
       [Method [] ''isRunning'' [] (Some (TName ''boolean'')) None,
        Method [] ''pause'' [] (Some (TName ''void'')) None,
        Method [] ''resume'' [] (Some (TName ''void'')) None,
        Method [] ''start'' [] (Some (TName ''void'')) None,
        Method [] ''stop'' [] (Some (TName ''void'')) None,
        Field [] [] ''onStart'' True (Some (TFun [] (TName ''void''))),
        Field [] [] ''onFinish'' True (Some (TFun [] (TName ''void'')))]\<close>

definition AR_AnimationGroup :: decl where
  \<open>AR_AnimationGroup =
     ClassDecl [] ''AnimationGroup'' (Some ''Animation'') []
       [Ctor []
          [Param ''type'' False False (Some (TName ''string'')),
           Param ''animations'' False False (Some (TArray (TName ''Animation''))),
           Param ''options'' False False
             (Some
                (TObj
                   [Field [] [] ''onStart'' True (Some (TFun [] (TName ''void''))),
                    Field [] [] ''onFinish'' True (Some (TFun [] (TName ''void'')))]))]
          None]\<close>

definition AR_ImageResource :: decl where
  \<open>AR_ImageResource =
     ClassDecl [] ''ImageResource'' (Some ''ARchitectObject'') []
       [Ctor []
          [Param ''uri'' False False (Some (TName ''string'')),
           Param ''options'' False False
             (Some
                (TObj
                   [Field [] [] ''onLoaded'' True (Some (TFun [] (TName ''void''))),
                    Field [] [] ''onError'' True (Some (TName ''void''))]))]
          None,
        Method [] ''getHeight'' [] (Some (TName ''number'')) None,
        Method [] ''getWidth'' [] (Some (TName ''number'')) None,
        Method [] ''getUri'' [] (Some (TName ''string'')) None,
        Method [] ''isLoaded'' [] (Some (TName ''boolean'')) None,
        Field [] [] ''onLoaded'' True (Some (TFun [] (TName ''void''))),
        Field [] [] ''onError'' True (Some (TFun [] (TName ''void'')))]\<close>

definition AR_BoundingRectangle :: decl where
  \<open>AR_BoundingRectangle =
     ClassDecl [] ''BoundingRectangle'' None []
       [Method [] ''getWidth'' [] (Some (TName ''number'')) None,
        Method [] ''getHeight'' [] (Some (TName ''number'')) None]\<close>

definition AR_Location :: decl where
  \<open>AR_Location =
     ClassDecl
       [''Location is an abstract class which describes a general location of a POI in the augmented scene.'']
       ''Location''
       (Some ''ARchitectObject'')
       []
       [Method
          [''Returns the shortest distance ("as the crow flies") to the Location passed as an argument, ignoring any altitude property.'',
           ''@param {Location} location - The Location the distance should be calculated for.'',
           ''@returns {number} - The numeric distance in meters.'']
          ''distanceTo''
          [Param ''location'' False False (Some (TName ''Location''))]
          (Some (TName ''number''))
          None,
        Method
          [''Returns the shortest distance ("as the crow flies") to the current location of the user, ignoring any altitude property.'',
           ''If the current position of the user cannot be determined, undefined will be returned.'',
           ''@returns {number|undefined}'']
          ''distanceToUser''
          []
          (Some (TName ''number''))
          None]\<close>

definition AR_GeoLocation :: decl where
  \<open>AR_GeoLocation =
     ClassDecl
       [''Every instance of GeoLocation represents a location in the earth's three-dimensional space.'',
        ''@param {number} latitude - The latitude of the location, in decimal degrees.'',
        ''@param {number} longitude - The longitude of the location, in decimal degrees.'',
        ''@param {number} altitude - The altitude of the location, in meters.'']
       ''GeoLocation''
       (Some ''Location'')
       []
       [Field [] [Public] ''latitude'' False (Some (TName ''number'')),
        Field [] [Public] ''longitude'' False (Some (TName ''number'')),
        Field [] [Public] ''altitude'' False (Some (TName ''number'')),
        Ctor []
          [Param ''latitude'' False False (Some (TName ''number'')),
           Param ''longitude'' False False (Some (TName ''number'')),
           Param ''altitude'' False False (Some (TName ''number''))]
          None]\<close>

definition AR_Circle :: decl where
  \<open>AR_Circle =
     ClassDecl [] ''Circle'' (Some ''Drawable2D'') []
       [Field [] [Public] ''radius'' False (Some (TName ''number'')),
        Field [] [Public] ''style'' False
          (Some
             (TObj
                [Field [] [] ''fillColor'' False (Some (TName ''string'')),
                 Field [] [] ''outlineSize'' False (Some (TName ''number'')),
                 Field [] [] ''outlineColor'' False (Some (TName ''string''))])),
        Ctor []
          [Param ''radius'' False False (Some (TName ''number'')),
           Param ''options'' True False (Some (TName ''Drawable2DOptions''))]
          None]\<close>

definition AR_context :: decl where
  \<open>AR_context =
     ConstDecl [] ''context''
       (TObj
          [Method [] ''destroyAll'' [] None None,
           Method [] ''openInBrowser''
             [Param ''url'' False False (Some (TName ''string'')),
              Param ''forceNativeBrowser'' False False (Some (TName ''boolean''))]
             None
             None,
           Method [] ''setCloudRecognitionServerRegion''
             [Param ''region'' False False (Some (TName ''string'')),
              Param ''options'' True False
                (Some
                   (TObj
                      [Field [] [] ''serverUrl'' False (Some (TName ''string'')),
                       Field [] [] ''onSuccess'' True (Some (TFun [] (TName ''void''))),
                       Field [] [] ''onError'' True (Some (TFun [] (TName ''void'')))]))]
             None
             None,
           Method [] ''startVideoPlayer'' [Param ''uri'' False False None] None None,
           Field [] [] ''clickBehavior'' False (Some (TName ''string'')),
           Field [] [] ''scene'' False
             (Some
                (TObj
                   [Field [] [] ''cullingDistance'' False (Some (TName ''number'')),
                    Field [] [] ''globalScale'' False (Some (TName ''number'')),
                    Field [] [] ''maxScalingDistance'' False (Some (TName ''number'')),
                    Field [] [] ''minScalingDistance'' False (Some (TName ''number'')),
                    Field [] [] ''scalingFactor'' False (Some (TName ''number'')),
                    Field [] [Readonly] ''versionNumber'' False (Some (TName ''string''))])),
           Field [] [] ''on2FingerGestureEnded'' True (Some (TFun [] (TName ''void''))),
           Field [] [] ''on2FingerGestureStarted'' True (Some (TFun [] (TName ''void''))),
           Field [] [] ''onDragBegan'' True
             (Some
                (TFun
                   [Param ''xNormalized'' False False (Some (TName ''number'')),
                    Param ''yNormalized'' False False (Some (TName ''number''))]
                   (TName ''void''))),
           Field [] [] ''onDragChanged'' True
             (Some
                (TFun
                   [Param ''xNormalized'' False False (Some (TName ''number'')),
                    Param ''yNormalized'' False False (Some (TName ''number''))]
                   (TName ''void''))),
           Field [] [] ''onDragEnded'' True
             (Some
                (TFun
                   [Param ''xNormalized'' False False (Some (TName ''number'')),
                    Param ''yNormalized'' False False (Some (TName ''number''))]
                   (TName ''void''))),
           Field [] [] ''onLocationChanged'' True
             (Some
                (TFun
                   [Param ''latitude'' False False (Some (TName ''number'')),
                    Param ''longitude'' False False (Some (TName ''number'')),
                    Param ''altitude'' False False (Some (TName ''number'')),
                    Param ''accuracy'' False False (Some (TName ''number''))]
                   (TName ''void''))),
           Field [] [] ''onPanBegan'' True
             (Some
                (TFun
                   [Param ''xNormalized'' False False (Some (TName ''number'')),
                    Param ''yNormalized'' False False (Some (TName ''number''))]
                   (TName ''void''))),
           Field [] [] ''onPanChanged'' True
             (Some
                (TFun
                   [Param ''xNormalized'' False False (Some (TName ''number'')),
                    Param ''yNormalized'' False False (Some (TName ''number''))]
                   (TName ''void''))),
           Field [] [] ''onPanEnded'' True
             (Some
                (TFun
                   [Param ''xNormalized'' False False (Some (TName ''number'')),
                    Param ''yNormalized'' False False (Some (TName ''number''))]
                   (TName ''void''))),
           Field [] [] ''onRotationBegan'' True
             (Some
                (TFun [Param ''angle'' False False (Some (TName ''number''))] (TName ''void''))),
           Field [] [] ''onRotationChanged'' True
             (Some
                (TFun [Param ''angle'' False False (Some (TName ''number''))] (TName ''void''))),
           Field [] [] ''onRotationEnded'' True
             (Some
                (TFun [Param ''angle'' False False (Some (TName ''number''))] (TName ''void''))),
           Field [] [] ''onScaleBegan'' True
             (Some
                (TFun [Param ''scale'' False False (Some (TName ''number''))] (TName ''void''))),
           Field [] [] ''onScaleChanged'' True
             (Some
                (TFun [Param ''scale'' False False (Some (TName ''number''))] (TName ''void''))),
           Field [] [] ''onscaleEnded'' True
             (Some
                (TFun [Param ''scale'' False False (Some (TName ''number''))] (TName ''void''))),
           Field [] [] ''onScreenClick'' True (Some (TFun [] (TName ''void'')))])\<close>

definition AR_hardware :: decl where
  \<open>AR_hardware =
     ConstDecl [] ''hardware''
       (TObj
          [Field [] [Readonly] ''camera'' False
             (Some
                (TObj
                   [Field [] [] ''enabled'' False (Some (TName ''boolean'')),
                    Field [] [] ''features'' False (Some (TObj [])),
                    Field [] [] ''flashlightAvailable'' False (Some (TName ''boolean'')),
                    Field [] [] ''focusDistance'' False (Some (TName ''number'')),
                    Field [] [] ''manualFocusAvailable'' False (Some (TName ''number'')),
                    Field [] [] ''position'' False (Some (TObj [])),
                    Field [] [] ''zoom'' False (Some (TName ''number''))])),
           Field [] [Readonly] ''sensors'' False
             (Some
                (TObj
                   [Field [] [] ''enabled'' False (Some (TName ''boolean'')),
                    Field [] [] ''compass'' False
                      (Some
                         (TObj [Field [] [] ''correctionAngle'' False (Some (TName ''number''))]))]))])\<close>

definition AR_HtmlDrawable :: decl where
  \<open>AR_HtmlDrawable =
     ClassDecl [] ''HtmlDrawable'' (Some ''Drawable2D'') []
       [Field [] [] ''allowDocumentLocationChanges'' False (Some (TName ''boolean'')),
        Field [] [] ''backgroundColor'' False (Some (TName ''string'')),
        Field [] [] ''clickThroughEnabled'' False (Some (TName ''string'')),
        Field [] [] ''html'' False (Some (TName ''string'')),
        Field [] [] ''uri'' False (Some (TName ''string'')),
        Field [] [] ''viewportHeight'' False (Some (TName ''number'')),
        Field [] [] ''viewportWidth'' False (Some (TName ''number'')),
        Field [] [] ''width'' False (Some (TName ''number'')),
        Ctor []
          [Param ''content'' False False
             (Some
                (TObj
                   [Field [] [] ''html'' True (Some (TName ''string'')),
                    Field [] [] ''uri'' True (Some (TName ''string''))])),
           Param ''width'' False False (Some (TName ''number'')),
           Param ''options'' False False None]
          None,
        Method [] ''evalJavaScript'' [Param ''js'' False False (Some (TName ''string''))] None
          None]\<close>

definition AR_GeoObject :: decl where
  \<open>AR_GeoObject =
     ClassDecl [] ''GeoObject'' (Some ''ARObject'') []
       [Field [] [] ''drawables'' False (Some (TName ''GeoObjectDrawables'')),
        Ctor []
          [Param ''location'' False False
             (Some (TUnion [TName ''Location'', TArray (TName ''Location'')])),
           Param ''options'' True False (Some (TName ''GeoObjectOptions''))]
          None]\<close>

definition AR_GeoObjectDrawables :: decl where
  \<open>AR_GeoObjectDrawables =
     ClassDecl [] ''GeoObjectDrawables'' (Some ''ARObjectDrawables'') []
       [Field [] [] ''indicator'' False (Some (TArray (TName ''Drawable2D''))),
        Field [] [] ''radar'' False (Some (TArray (TName ''Drawable2D''))),
        Field [] [] ''locations'' False (Some (TArray (TName ''Location''))),
        Method [] ''addIndicatorDrawable''
          [Param ''drawable'' False False
             (Some (TUnion [TName ''Drawable2D'', TArray (TName ''Drawable2D'')])),
           Param ''position'' False False (Some (TName ''number''))]
          (Some (TName ''void''))
          None,
        Method [] ''addRadarDrawable''
          [Param ''drawable'' False False
             (Some (TUnion [TName ''Drawable2D'', TArray (TName ''Drawable2D'')])),
           Param ''position'' False False (Some (TName ''number''))]
          (Some (TName ''void''))
          None,
        Method [] ''removeIndicatorDrawable''
          [Param ''drawableOrPosition'' False False
             (Some
                (TUnion [TName ''Drawable2D'', TArray (TName ''Drawable2D''), TName ''number'']))]
          (Some (TName ''void''))
          None,
        Field [] [] ''onEnterFieldOfVision'' True (Some (TFun [] (TName ''void''))),
        Field [] [] ''onExitFieldOfVision'' True (Some (TFun [] (TName ''void'')))]\<close>

definition AR_EasingCurve :: decl where
  \<open>AR_EasingCurve =
     ClassDecl [] ''EasingCurve'' (Some ''ARchitectObject'') []
       [Field [] [Public] ''amplitude'' False (Some (TName ''number'')),
        Field [] [Public] ''overshoot'' False (Some (TName ''number'')),
        Field [] [Public] ''period'' False (Some (TName ''number'')),
        Ctor []
          [Param ''type'' False False (Some (TName ''string'')),
           Param ''options'' True False
             (Some
                (TObj
                   [Field [] [] ''amplitude'' True (Some (TName ''number'')),
                    Field [] [] ''overshoot'' True (Some (TName ''number'')),
                    Field [] [] ''period'' True (Some (TName ''number''))]))]
          None]\<close>

definition AR_logger :: decl where
  \<open>AR_logger =
     ConstDecl [] ''logger''
       (TObj
          [Field [] [] ''activateDebugMode'' False (Some (TFun [] (TName ''void''))),
           Field [] [] ''debug'' False
             (Some
                (TFun [Param ''message'' False False (Some (TName ''string''))] (TName ''void''))),
           Field [] [] ''error'' False
             (Some
                (TFun [Param ''message'' False False (Some (TName ''string''))] (TName ''void''))),
           Field [] [] ''info'' False
             (Some
                (TFun [Param ''message'' False False (Some (TName ''string''))] (TName ''void''))),
           Field [] [] ''warning'' False
             (Some
                (TFun [Param ''message'' False False (Some (TName ''string''))] (TName ''void'')))])\<close>

definition AR_platform :: decl where
  \<open>AR_platform =
     ConstDecl [] ''platform''
       (TObj
          [Method [] ''sendJSONObject'' [Param ''jsonData'' False False (Some (TName ''any''))]
             None
             None])\<close>

definition AR_ImageTrackable :: decl where
  \<open>AR_ImageTrackable =
     ClassDecl [] ''ImageTrackable'' (Some ''ARObject'') []
       [Field [] [] ''aspectRatio'' False (Some (TName ''number'')),
        Field [] [] ''enableExtendedTracking'' False (Some (TName ''boolean'')),
        Field [] [] ''extendedTarget'' False (Some (TName ''string'')),
        Field [] [] ''targetName'' False (Some (TName ''string'')),
        Field [] [] ''tracker'' False (Some (TName ''ImageTracker'')),
        Ctor []
          [Param ''tracker'' False False (Some (TName ''ImageTracker'')),
           Param ''targetName'' False False (Some (TName ''string'')),
           Param ''options'' False False (Some (TName ''ImageTrackableOptions''))]
          None,
        Method [] ''stopExtendedTracking'' [] None None,
        Field [] [] ''onExtendedTrackingQualityChanged'' True
          (Some
             (TFun
                [Param ''targetName'' False False (Some (TName ''string'')),
                 Param ''previousQuality'' False False (Some (TName ''number'')),
                 Param ''newQuality'' False False (Some (TName ''number''))]
                (TName ''void'')))]\<close>

definition AR_ImageTracker :: decl where
  \<open>AR_ImageTracker =
     ClassDecl [] ''ImageTracker'' (Some ''ARchitectObject'') []
       [Field [] [] ''enabled'' True (Some (TName ''boolean'')),
        Field [] [] ''physicalTargetImageHeights'' True (Some (TName ''any'')),
        Ctor []
          [Param ''tracker'' False False (Some (TName ''TargetCollectionResource'')),
           Param ''options'' True False (Some (TName ''ImageTrackerOptions''))]
          None,
        Ctor []
          [Param ''tracker'' False False (Some (TName ''CloudRecognitionService'')),
           Param ''options'' True False (Some (TName ''ImageTrackerOptions''))]
          None,
        Field [] [] ''onDisabled'' True (Some (TFun [] (TName ''void''))),
        Field [] [] ''onError'' True (Some (TFun [] (TName ''void''))),
        Field [] [] ''onTargetsLoaded'' True (Some (TFun [] (TName ''void'')))]\<close>

definition AR_ImageTrackerOptions :: decl where
  \<open>AR_ImageTrackerOptions =
     ClassDecl [] ''ImageTrackerOptions'' None []
       [Field [] [] ''enabled'' True (Some (TName ''boolean'')),
        Field [] [] ''physicalTargetImageHeights'' True (Some (TName ''any'')),
        Field [] [] ''onTargetsLoaded'' True (Some (TFun [] (TName ''void''))),
        Field [] [] ''onError'' True (Some (TFun [] (TName ''void''))),
        Field [] [] ''onDisabled'' True (Some (TFun [] (TName ''void'')))]\<close>

definition AR_TargetCollectionResource :: decl where
  \<open>AR_TargetCollectionResource =
     ClassDecl [] ''TargetCollectionResource'' (Some ''ARchitectObject'') []
       [Field [] [] ''loading'' False (Some (TName ''boolean'')),
        Field [] [] ''URL'' False (Some (TName ''string'')),
        Ctor []
          [Param ''URL'' False False (Some (TName ''string'')),
           Param ''options'' True False
             (Some
                (TObj
                   [Field [] [] ''onLoaded'' True (Some (TFun [] (TName ''void''))),
                    Field [] [] ''onError'' True (Some (TFun [] (TName ''void'')))]))]
          None,
        Method [] ''cancel'' [] None None,
        Field [] [] ''onError'' True (Some (TFun [] (TName ''void''))),
        Field [] [] ''onLoaded'' True (Some (TFun [] (TName ''void'')))]\<close>

definition AR_CloudRecognitionService :: decl where
  \<open>AR_CloudRecognitionService =
     ClassDecl [] ''CloudRecognitionService'' (Some ''ARchitectObject'') []
       [Field [] [] ''clientToken'' True (Some (TName ''string'')),
        Field [] [] ''targetCollectionId'' True (Some (TName ''string'')),
        Method [] ''recognize''
          [Param ''onRecognized'' True False (Some (TName ''RecognizedCallback'')),
           Param ''onError'' True False (Some (TName ''ErrorCallback''))]
          (Some (TName ''void''))
          None,
        Method [] ''startContinuousRecognition''
          [Param ''interval'' False False (Some (TName ''number'')),
           Param ''onInterruptionCallback'' True False (Some (TName ''InterruptionCallback'')),
           Param ''onRecognizedCallback'' True False (Some (TName ''RecognizedCallback'')),
           Param ''onErrorCallback'' True False (Some (TName ''ErrorCallback''))]
          (Some (TName ''void''))
          None,
        Method [] ''stopContinuousRecognition'' [] (Some (TName ''void'')) None,
        Field [] [] ''onError'' True (Some (TFun [] (TName ''void''))),
        Field [] [] ''onInitialized'' True (Some (TFun [] (TName ''void'')))]\<close>

definition AR_ImageTrackableOptions :: decl where
  \<open>AR_ImageTrackableOptions =
     ClassDecl [] ''ImageTrackableOptions'' (Some ''Drawable2DOptions'') []
       [Field [] [] ''renderingOrder'' True (Some (TName ''number'')),
        Field [] [] ''onImageRecognised'' True (Some (TFun [] (TName ''void''))),
        Field [] [] ''onImageLost'' True (Some (TFun [] (TName ''void''))),
        Field [] [] ''drawables'' True
          (Some (TObj [Field [] [] ''cam'' False (Some (TArray (TName ''Drawable'')))])),
        Field [] [] ''distanceToTarget'' True
          (Some
             (TObj
                [Field [] [] ''changedThreshold'' False (Some (TName ''number'')),
                 Field [] [] ''onDistanceChanged'' True (Some (TFun [] (TName ''void'')))])),
        Field [] [] ''enableExtendedTracking'' True (Some (TName ''boolean'')),
        Field [] [] ''entendedTarget'' True (Some (TName ''string'')),
        Field [] [] ''extendedTrackingQualityChanged'' True (Some (TFun [] (TName ''void'')))]\<close>

definition AR_InstantTrackable :: decl where
  \<open>AR_InstantTrackable =
     ClassDecl [] ''InstantTrackable'' (Some ''ARObject'') []
       [Field [] [Readonly] ''tracker'' False (Some (TName ''InstantTracker'')),
        Ctor []
          [Param ''tacker'' False False (Some (TName ''InstantTracker'')),
           Param ''options'' True False (Some (TName ''InstantTrackableOptions''))]
          None,
        Field [] [] ''onTrackingStarted'' True (Some (TFun [] (TName ''void''))),
        Field [] [] ''onTrackingStopped'' True (Some (TFun [] (TName ''void''))),
        Field [] [] ''onTrackingPlaneClick'' True
          (Some
             (TFun
                [Param ''xIntersection'' False False (Some (TName ''number'')),
                 Param ''yIntersection'' False False (Some (TName ''number''))]
                (TName ''void''))),
        Field [] [] ''onTrackingPlaneDragBegan'' True
          (Some
             (TFun
                [Param ''xIntersection'' False False (Some (TName ''number'')),
                 Param ''yIntersection'' False False (Some (TName ''number''))]
                (TName ''void''))),
        Field [] [] ''onTrackingPlaneDragChanged'' True
          (Some
             (TFun
                [Param ''xIntersection'' False False (Some (TName ''number'')),
                 Param ''yIntersection'' False False (Some (TName ''number''))]
                (TName ''void''))),
        Field [] [] ''onTrackingPlaneDragEnded'' True
          (Some
             (TFun
                [Param ''xIntersection'' False False (Some (TName ''number'')),
                 Param ''yIntersection'' False False (Some (TName ''number''))]
                (TName ''void'')))]\<close>

definition AR_InstantTrackableOptions :: decl where
  \<open>AR_InstantTrackableOptions =
     ClassDecl [] ''InstantTrackableOptions'' (Some ''_EVENT_HANDLERS'') []
       [Field [] [] ''enabled'' True (Some (TName ''boolean'')),
        Field [] [] ''renderingOrder'' True (Some (TName ''number'')),
        Field [] [] ''drawables'' False
          (Some
             (TObj
                [Field [] [] ''cam'' False (Some (TArray (TName ''Drawable''))),
                 Field [] [] ''initialization'' False (Some (TArray (TName ''Drawable'')))])),
        Field [] [] ''onTrackingStarted'' True (Some (TFun [] (TName ''void''))),
        Field [] [] ''onTrackingStopped'' True (Some (TFun [] (TName ''void''))),
        Field [] [] ''onTrackingPlaneClick'' True
          (Some
             (TFun
                [Param ''xIntersection'' False False (Some (TName ''number'')),
                 Param ''yIntersection'' False False (Some (TName ''number''))]
                (TName ''void''))),
        Field [] [] ''onTrackingPlaneDragBegan'' True
          (Some
             (TFun
                [Param ''xIntersection'' False False (Some (TName ''number'')),
                 Param ''yIntersection'' False False (Some (TName ''number''))]
                (TName ''void''))),
        Field [] [] ''onTrackingPlaneDragChanged'' True
          (Some
             (TFun
                [Param ''xIntersection'' False False (Some (TName ''number'')),
                 Param ''yIntersection'' False False (Some (TName ''number''))]
                (TName ''void''))),
        Field [] [] ''onTrackingPlaneDragEnded'' True
          (Some
             (TFun
                [Param ''xIntersection'' False False (Some (TName ''number'')),
                 Param ''yIntersection'' False False (Some (TName ''number''))]
                (TName ''void'')))]\<close>

definition AR_InstantTracker :: decl where
  \<open>AR_InstantTracker =
     ClassDecl [] ''InstantTracker'' (Some ''ARchitectObject'') []
       [Field [] [] ''enabled'' True (Some (TName ''boolean'')),
        Field [] [] ''state'' True (Some (TName ''number'')),
        Field [] [] ''deviceHeight'' True (Some (TName ''string'')),
        Ctor []
          [Param ''options'' True False
             (Some
                (TObj
                   [Field [] [] ''enabled'' True (Some (TName ''boolean'')),
                    Field [] [] ''onError'' True (Some (TFun [] (TName ''void''))),
                    Field [] [] ''onDisabled'' True (Some (TFun [] (TName ''void''))),
                    Field [] [] ''onChangedState'' True (Some (TFun [] (TName ''void''))),
                    Field [] [] ''deviceHeight'' True (Some (TName ''number''))]))]
          None,
        Field [] [] ''onError'' True (Some (TFun [] (TName ''void''))),
        Field [] [] ''onDisabled'' True (Some (TFun [] (TName ''void''))),
        Field [] [] ''onChangedState'' True (Some (TFun [] (TName ''void'')))]\<close>

definition AR_EASING_CURVE_TYPE :: decl where
  \<open>AR_EASING_CURVE_TYPE =
     ClassDecl [] ''EASING_CURVE_TYPE'' None []
       [Field [] [] ''LINEAR'' False (Some (TLit ''linear'')),
        Field [] [] ''EASE_IN_QUAD'' False (Some (TLit ''easeInQuad'')),
        Field [] [] ''EASE_OUT_QUAD'' False (Some (TLit ''easeOutQuad'')),
        Field [] [] ''EASE_IN_OUT_QUAD'' False (Some (TLit ''easeInOutQuad'')),
        Field [] [] ''EASE_OUT_IN_QUAD'' False (Some (TLit ''easeOutInQuad'')),
        Field [] [] ''EASE_IN_CUBIC'' False (Some (TLit ''easeInCubic'')),
        Field [] [] ''EASE_OUT_CUBIC'' False (Some (TLit ''easeOutCubic'')),
        Field [] [] ''EASE_IN_OUT_CUBIC'' False (Some (TLit ''easeInOutCubic'')),
        Field [] [] ''EASE_OUT_IN_CUBIC'' False (Some (TLit ''easeOutInCubic'')),
        Field [] [] ''EASE_IN_QUAT'' False (Some (TLit ''easeInQuat'')),
        Field [] [] ''EASE_OUT_QUAT'' False (Some (TLit ''easeOutQuat'')),
        Field [] [] ''EASE_IN_OUT_QUAT'' False (Some (TLit ''easeInOutQuat'')),
        Field [] [] ''EASE_OUT_IN_QUAT'' False (Some (TLit ''easeOutInQuat'')),
        Field [] [] ''EASE_IN_QUINT'' False (Some (TLit ''easeInQuint'')),
        Field [] [] ''EASE_OUT_QUINT'' False (Some (TLit ''easeOutQuint'')),
        Field [] [] ''EASE_IN_OUT_QUINT'' False (Some (TLit ''easeInOutQuint'')),
        Field [] [] ''EASE_OUT_IN_QUINT'' False (Some (TLit ''easeOutInQuint'')),
        Field [] [] ''EASE_IN_ELASTIC'' False (Some (TLit ''easeInElastic'')),
        Field [] [] ''EASE_OUT_ELASTIC'' False (Some (TLit ''easeOutElastic'')),
        Field [] [] ''EASE_IN_OUT_ELASTIC'' False (Some (TLit ''easeInOutElastic'')),
        Field [] [] ''EASE_OUT_IN_ELASTIC'' False (Some (TLit ''easeOutInElastic'')),
        Field [] [] ''EASE_IN_BACK'' False (Some (TLit ''easeInBack'')),
        Field [] [] ''EASE_OUT_BACK'' False (Some (TLit ''easeOutBack'')),
        Field [] [] ''EASE_IN_OUT_BACK'' False (Some (TLit ''easeInOutBack'')),
        Field [] [] ''EASE_OUT_IN_BACK'' False (Some (TLit ''easeOutInBack'')),
        Field [] [] ''EASE_IN_SINE'' False (Some (TLit ''easeInSine'')),
        Field [] [] ''EASE_OUT_SINE'' False (Some (TLit ''easeOutSine'')),
        Field [] [] ''EASE_IN_OUT_SINE'' False (Some (TLit ''easeInOutSine'')),
        Field [] [] ''EASE_OUT_IN_SINE'' False (Some (TLit ''easeOutInSine'')),
        Field [] [] ''EASE_IN_EXPO'' False (Some (TLit ''easeInExpo'')),
        Field [] [] ''EASE_OUT_EXPO'' False (Some (TLit ''easeOutExpo'')),
        Field [] [] ''EASE_IN_OUT_EXPO'' False (Some (TLit ''easeInOutExpo'')),
        Field [] [] ''EASE_OUT_IN_EXPO'' False (Some (TLit ''easeOutInExpo'')),
        Field [] [] ''EASE_IN_CIRC'' False (Some (TLit ''easeInCirc'')),
        Field [] [] ''EASE_OUT_CIRC'' False (Some (TLit ''easeOutCirc'')),
        Field [] [] ''EASE_IN_OUT_CIRC'' False (Some (TLit ''easeInOutCirc'')),
        Field [] [] ''EASE_OUT_IN_CIRC'' False (Some (TLit ''easeOutInCirc'')),
        Field [] [] ''EASE_IN_BOUNCE'' False (Some (TLit ''easeInBounce'')),
        Field [] [] ''EASE_OUT_BOUNCE'' False (Some (TLit ''easeOutBounce'')),
        Field [] [] ''EASE_IN_OUT_BOUNCE'' False (Some (TLit ''easeInOutBounce'')),
        Field [] [] ''EASE_OUT_IN_BOUNCE'' False (Some (TLit ''easeOutInBounce'')),
        Field [] [] ''EASE_IN_CURVE'' False (Some (TLit ''easeInCurve'')),
        Field [] [] ''EASE_OUT_CURVE'' False (Some (TLit ''easeOutCurve''))]\<close>

definition AR_DrawableOptions :: decl where
  \<open>AR_DrawableOptions =
     ClassDecl [] ''DrawableOptions'' (Some ''_EVENT_HANDLERS'') []
       [Field [] [] ''enabled'' True (Some (TName ''boolean'')),
        Field [] [] ''mirrored'' True (Some (TName ''boolean'')),
        Field [] [] ''rotate'' True (Some (TName ''Vector3'')),
        Field [] [] ''rotatesToCamera'' True (Some (TName ''boolean'')),
        Field [] [] ''scale'' True (Some (TName ''Vector3'')),
        Field [] [] ''translate'' True (Some (TName ''Vector3''))]\<close>

definition AR_Drawable2DOptions :: decl where
  \<open>AR_Drawable2DOptions =
     ClassDecl [] ''Drawable2DOptions'' (Some ''DrawableOptions'') []
       [Field [] [] ''opacity'' True (Some (TName ''number'')),
        Field [] [] ''horizontalAnchor'' True (Some (TName ''number'')),
        Field [] [] ''verticalAnchor'' True (Some (TName ''number'')),
        Field [] [] ''zOrder'' True (Some (TName ''number''))]\<close>

definition AR_GeoObjectOptions :: decl where
  \<open>AR_GeoObjectOptions =
     ClassDecl [] ''GeoObjectOptions'' (Some ''DrawableOptions'') []
       [Field [] [] ''drawables'' False
          (Some
             (TObj
                [Field [] [] ''cam'' False
                   (Some (TUnion [TName ''Drawable2D'', TArray (TName ''Drawable2D'')]))])),
        Field [] [] ''renderingOrder'' True (Some (TName ''number'')),
        Field [] [] ''onEnterFieldOfVision'' True (Some (TFun [] (TName ''void''))),
        Field [] [] ''onExitFieldOfVision'' True (Some (TFun [] (TName ''void'')))]\<close>

definition AR_Label :: decl where
  \<open>AR_Label =
     ClassDecl [] ''Label'' (Some ''Drawable2D'') []
       [Field [] [] ''height'' False (Some (TName ''number'')),
        Field [] [] ''style'' False
          (Some
             (TObj
                [Field [] [] ''backgroundColor'' False (Some (TName ''string'')),
                 Field [] [] ''textColor'' False (Some (TName ''string'')),
                 Field [] [] ''fontStyle'' False (Some (TName ''number''))])),
        Field [] [] ''text'' False (Some (TName ''string'')),
        Ctor []
          [Param ''text'' False False (Some (TName ''string'')),
           Param ''height'' False False (Some (TName ''number'')),
           Param ''options'' True False (Some (TName ''LabelOptions''))]
          None]\<close>

definition AR_Model :: decl where
  \<open>AR_Model =
     ClassDecl [] ''Model'' (Some ''Drawable'') []
       [Field [] [] ''uri'' False (Some (TName ''string'')),
        Ctor []
          [Param ''uri'' False False (Some (TName ''string'')),
           Param ''options'' False False (Some (TName ''DrawableOptions''))]
          None,
        Method [] ''isInitialized'' [] (Some (TName ''boolean'')) None,
        Method [] ''isLoaded'' [] (Some (TName ''boolean'')) None,
        Field [] [] ''onError'' True (Some (TFun [] (TName ''void''))),
        Field [] [] ''onInitialized'' True (Some (TFun [] (TName ''void''))),
        Field [] [] ''onLoaded'' True (Some (TFun [] (TName ''void'')))]\<close>

definition AR_ModelAnimation :: decl where
  \<open>AR_ModelAnimation =
     ClassDecl [] ''ModelAnimation'' (Some ''Animation'') []
       [Ctor []
          [Param ''model'' False False (Some (TName ''Model'')),
           Param ''animationId'' False False (Some (TName ''string'')),
           Param ''options'' True False
             (Some
                (TObj
                   [Field [] [] ''onStart'' True (Some (TFun [] (TName ''void''))),
                    Field [] [] ''onFinish'' True (Some (TFun [] (TName ''void'')))])),
           Param ''duration'' True False (Some (TName ''number''))]
          None]\<close>

definition AR_Positionable :: decl where
  \<open>AR_Positionable =
     ClassDecl [] ''Positionable'' (Some ''ARObject'') []
       [Field [] [] ''name'' False (Some (TName ''string'')),
        Ctor []
          [Param ''name'' False False (Some (TName ''string'')),
           Param ''options'' True False (Some (TName ''PositionableOptions''))]
          None]\<close>

definition AR_PositionableOptions :: decl where
  \<open>AR_PositionableOptions =
     ClassDecl [] ''PositionableOptions'' (Some ''DrawableOptions'') []
       [Field [] [] ''drawables'' False
          (Some (TObj [Field [] [] ''cam'' False (Some (TArray (TName ''Drawable'')))])),
        Field [] [] ''onEnterFieldOfVision'' True (Some (TFun [] (TName ''void''))),
        Field [] [] ''onExitFieldOfVision'' True (Some (TFun [] (TName ''void'')))]\<close>

definition AR_LabelOptions :: decl where
  \<open>AR_LabelOptions =
     ClassDecl [] ''LabelOptions'' (Some ''Drawable2DOptions'') []
       [Field [] [] ''style'' False
          (Some
             (TObj
                [Field [] [] ''backgroundColor'' False (Some (TName ''string'')),
                 Field [] [] ''textColor'' False (Some (TName ''string'')),
                 Field [] [] ''fontStyle'' False (Some (TName ''number''))]))]\<close>

definition AR_PropertyAnimation :: decl where
  \<open>AR_PropertyAnimation =
     ClassDecl [] ''PropertyAnimation'' (Some ''Animation'') []
       [Ctor []
          [Param ''target'' False False (Some (TName ''ARchitectObject'')),
           Param ''property'' False False (Some (TName ''string'')),
           Param ''start'' False False (Some (TName ''number'')),
           Param ''end'' False False (Some (TName ''number'')),
           Param ''duration'' False False (Some (TName ''number'')),
           Param ''easingCurve'' True False (Some (TName ''EasingCurve'')),
           Param ''options'' True False
             (Some
                (TObj
                   [Field [] [] ''onStart'' True (Some (TFun [] (TName ''void''))),
                    Field [] [] ''onFinish'' True (Some (TFun [] (TName ''void'')))]))]
          None]\<close>

definition AR_RelativeLocation :: decl where
  \<open>AR_RelativeLocation =
     ClassDecl [] ''RelativeLocation'' (Some ''Location'') []
       [Field [] [] ''altitudeDelta'' False (Some (TName ''number'')),
        Field [] [] ''easting'' False (Some (TName ''number'')),
        Field [] [] ''northing'' False (Some (TName ''number'')),
        Field [] [] ''location'' False (Some (TName ''Location'')),
        Ctor []
          [Param ''location'' False False (Some (TName ''Location'')),
           Param ''northing'' False False (Some (TName ''number'')),
           Param ''easting'' False False (Some (TName ''number'')),
           Param ''altitudeDelta'' True False (Some (TName ''number''))]
          None]\<close>

definition AR_callback :: decl where
  \<open>AR_callback =
     TypeAlias [] ''callback''
       (TFun [Param ''arg'' False True (Some (TArray (TName ''any'')))] (TName ''void''))\<close>

definition AR_Sound :: decl where
  \<open>AR_Sound =
     ClassDecl [] ''Sound'' (Some ''ARchitectObject'') []
       [Field [] [] ''state'' False (Some (TName ''number'')),
        Ctor []
          [Param ''uri'' False False (Some (TName ''string'')),
           Param ''options'' True False
             (Some
                (TObj
                   [Field [] [] ''onLoaded'' True (Some (TName ''callback'')),
                    Field [] [] ''onError'' True (Some (TName ''callback'')),
                    Field [] [] ''onFinishedPlaying'' True (Some (TName ''callback''))]))]
          None,
        Method [] ''load'' [] None None,
        Method [] ''pause'' [] None None,
        Method [] ''play'' [Param ''loopTimes'' False False (Some (TName ''number''))] None None,
        Method [] ''resume'' [] None None,
        Method [] ''stop'' [] None None,
        Field [] [] ''onLoaded'' True (Some (TName ''callback'')),
        Field [] [] ''onError'' True (Some (TName ''callback'')),
        Field [] [] ''onFinishedPlaying'' True (Some (TName ''callback''))]\<close>

definition AR_Style :: decl where
  \<open>AR_Style =
     ClassDecl [] ''Style'' None []
       [Field [] [] ''backgroundColor'' False (Some (TName ''string'')),
        Field [] [] ''fillColor'' False (Some (TName ''string'')),
        Field [] [] ''fontStyle'' False (Some (TName ''string'')),
        Field [] [] ''outlineColor'' False (Some (TName ''string'')),
        Field [] [] ''outlineSize'' False (Some (TName ''number'')),
        Field [] [] ''textColor'' False (Some (TName ''string''))]\<close>

definition AR_VideoDrawable :: decl where
  \<open>AR_VideoDrawable =
     ClassDecl [] ''VideoDrawable'' (Some ''Drawable2D'') []
       [Field [] [] ''height'' False (Some (TName ''number'')),
        Ctor []
          [Param ''uri'' False False (Some (TName ''string'')),
           Param ''height'' False False (Some (TName ''number'')),
           Param ''options'' True False (Some (TName ''VideoDrawableOptions''))]
          None,
        Method [] ''getUri'' [] (Some (TName ''string'')) None,
        Method [] ''isTransparent'' [] (Some (TName ''boolean'')) None,
        Method [] ''pause'' [] None None,
        Method [] ''play'' [Param ''loopTimes'' False False (Some (TName ''number''))] None None,
        Method [] ''resume'' [] None None,
        Method [] ''stop'' [] None None,
        Field [] [] ''onPlaybackStarted'' True (Some (TName ''callback'')),
        Field [] [] ''onFinishedPlaying'' True (Some (TName ''callback'')),
        Field [] [] ''onFinish'' True (Some (TName ''callback'')),
        Field [] [] ''onLoaded'' True (Some (TName ''callback''))]\<close>

definition AR_radar :: decl where
  \<open>AR_radar =
     ClassDecl [] ''radar'' None []
       [Field [] [] ''background'' False (Some (TName ''ImageResource'')),
        Field [] [] ''centerX'' False (Some (TName ''number'')),
        Field [] [] ''centerY'' False (Some (TName ''number'')),
        Field [] [] ''container'' False (Some (TName ''Element'')),
        Field [] [] ''enabled'' False (Some (TName ''boolean'')),
        Field [] [] ''northIndicator'' False
          (Some
             (TObj
                [Field [] [] ''image'' False (Some (TName ''ImageResource'')),
                 Field [] [] ''radius'' False (Some (TName ''number''))])),
        Field [] [] ''radius'' False (Some (TName ''number'')),
        Method [] ''notifyUpdateRadarPosition'' [] None None]\<close>

definition AR_VideoDrawableOptions :: decl where
  \<open>AR_VideoDrawableOptions =
     ClassDecl [] ''VideoDrawableOptions'' (Some ''Drawable2DOptions'') []
       [Field [] [] ''isTransparent'' True (Some (TName ''boolean'')),
        Field [] [] ''onPlaybackStarted'' True (Some (TName ''callback'')),
        Field [] [] ''onFinishedPlaying'' True (Some (TName ''callback'')),
        Field [] [] ''onFinish'' True (Some (TName ''callback'')),
        Field [] [] ''onLoaded'' True (Some (TName ''callback''))]\<close>

definition AR_Vector3 :: decl where
  \<open>AR_Vector3 =
     ClassDecl
       [''Please Don't use, does not actually exist in the Wikitude Architect, its just an easier way to describe it...'']
       ''Vector3''
       None
       []
       [Field [] [] ''x'' False (Some (TName ''number'')),
        Field [] [] ''y'' False (Some (TName ''number'')),
        Field [] [] ''z'' False (Some (TName ''number'')),
        Field [] [] ''global'' True (Some (TName ''Vector3''))]\<close>

definition AR_EVENT_HANDLERS :: decl where
  \<open>AR_EVENT_HANDLERS =
     ClassDecl [] ''_EVENT_HANDLERS'' None []
       [Field [] [] ''onClick'' True
          (Some
             (TFun [Param ''arObject'' False False (Some (TName ''ARObject''))] (TName ''void''))),
        Field [] [] ''onDragBegan'' True
          (Some
             (TFun
                [Param ''xNormalized'' False False (Some (TName ''number'')),
                 Param ''yNormalized'' False False (Some (TName ''number'')),
                 Param ''xIntersection'' False False (Some (TName ''number'')),
                 Param ''yIntersection'' False False (Some (TName ''number''))]
                (TName ''void''))),
        Field [] [] ''onDragChanged'' True
          (Some
             (TFun
                [Param ''xNormalized'' False False (Some (TName ''number'')),
                 Param ''yNormalized'' False False (Some (TName ''number'')),
                 Param ''xIntersection'' False False (Some (TName ''number'')),
                 Param ''yIntersection'' False False (Some (TName ''number''))]
                (TName ''void''))),
        Field [] [] ''onDragEnded'' True
          (Some
             (TFun
                [Param ''xNormalized'' False False (Some (TName ''number'')),
                 Param ''yNormalized'' False False (Some (TName ''number'')),
                 Param ''xIntersection'' False False (Some (TName ''number'')),
                 Param ''yIntersection'' False False (Some (TName ''number''))]
                (TName ''void''))),
        Field [] [] ''onPanBegan'' True
          (Some
             (TFun
                [Param ''xNormalized'' False False (Some (TName ''number'')),
                 Param ''yNormalized'' False False (Some (TName ''number''))]
                (TName ''void''))),
        Field [] [] ''onPanChanged'' True
          (Some
             (TFun
                [Param ''xNormalized'' False False (Some (TName ''number'')),
                 Param ''yNormalized'' False False (Some (TName ''number''))]
                (TName ''void''))),
        Field [] [] ''onPanEnded'' True
          (Some
             (TFun
                [Param ''xNormalized'' False False (Some (TName ''number'')),
                 Param ''yNormalized'' False False (Some (TName ''number''))]
                (TName ''void''))),
        Field [] [] ''onRotationBegan'' True
          (Some (TFun [Param ''angle'' False False (Some (TName ''number''))] (TName ''void''))),
        Field [] [] ''onRotationChanged'' True
          (Some (TFun [Param ''angle'' False False (Some (TName ''number''))] (TName ''void''))),
        Field [] [] ''onRotationEnded'' True
          (Some (TFun [Param ''angle'' False False (Some (TName ''number''))] (TName ''void''))),
        Field [] [] ''onScaleBegan'' True
          (Some (TFun [Param ''scale'' False False (Some (TName ''number''))] (TName ''void''))),
        Field [] [] ''onScaleChanged'' True
          (Some (TFun [Param ''scale'' False False (Some (TName ''number''))] (TName ''void''))),
        Field [] [] ''onscaleEnded'' True
          (Some (TFun [Param ''scale'' False False (Some (TName ''number''))] (TName ''void'')))]\<close>

text \<open>The module: its declarations in the order of the file.\<close>

definition AR :: "decl list" where
  "AR =
    [AR_RecognizedCallback, AR_InterruptionCallback, AR_ErrorCallback,
     AR_CONST, AR_ARchitectObject, AR_ActionArea, AR_ActionRange,
     AR_Drawable, AR_Drawable2D, AR_ImageDrawable, AR_AnimatedImageDrawable,
     AR_ARObject, AR_ARObjectDrawables, AR_Animation, AR_AnimationGroup,
     AR_ImageResource, AR_BoundingRectangle, AR_Location, AR_GeoLocation,
     AR_Circle, AR_context, AR_hardware, AR_HtmlDrawable, AR_GeoObject,
     AR_GeoObjectDrawables, AR_EasingCurve, AR_logger, AR_platform,
     AR_ImageTrackable, AR_ImageTracker, AR_ImageTrackerOptions,
     AR_TargetCollectionResource, AR_CloudRecognitionService,
     AR_ImageTrackableOptions, AR_InstantTrackable,
     AR_InstantTrackableOptions, AR_InstantTracker, AR_EASING_CURVE_TYPE,
     AR_DrawableOptions, AR_Drawable2DOptions, AR_GeoObjectOptions,
     AR_Label, AR_Model, AR_ModelAnimation, AR_Positionable,
     AR_PositionableOptions, AR_LabelOptions, AR_PropertyAnimation,
     AR_RelativeLocation, AR_callback, AR_Sound, AR_Style, AR_VideoDrawable,
     AR_radar, AR_VideoDrawableOptions, AR_Vector3, AR_EVENT_HANDLERS]"

section \<open>Reading declarations\<close>

datatype kind = KAlias | KConst | KClass | KFunction

fun decl_kind :: "decl \<Rightarrow> kind" where
  "decl_kind (TypeAlias d n t) = KAlias"
| "decl_kind (ConstDecl d n t) = KConst"
| "decl_kind (ClassDecl d n e i ms) = KClass"
| "decl_kind (FunctionDecl d n ps r b) = KFunction"

fun decl_name :: "decl \<Rightarrow> string" where
  "decl_name (TypeAlias d n t) = n"
| "decl_name (ConstDecl d n t) = n"
| "decl_name (ClassDecl d n e i ms) = n"
| "decl_name (FunctionDecl d n ps r b) = n"

text \<open>The superclass named in a class head.\<close>

fun superclass :: "decl \<Rightarrow> string option" where
  "superclass (ClassDecl d n e i ms) = e"
| "superclass (TypeAlias d n t) = None"
| "superclass (ConstDecl d n t) = None"
| "superclass (FunctionDecl d n ps r b) = None"

text \<open>The names a class head mentions: its superclass and the names it implements.\<close>

fun heritage :: "decl \<Rightarrow> string list" where
  "heritage (ClassDecl d n e i ms) = (case e of None \<Rightarrow> [] | Some s \<Rightarrow> [s]) @ i"
| "heritage (TypeAlias d n t) = []"
| "heritage (ConstDecl d n t) = []"
| "heritage (FunctionDecl d n ps r b) = []"

text \<open>
  The members a declaration has itself: the body of a class, or the members of the
  object type a constant or an alias is declared with.
\<close>

fun object_members :: "ty \<Rightarrow> member list" where
  "object_members (TObj ms) = ms"
| "object_members (TName n) = []"
| "object_members (TLit s) = []"
| "object_members (TArray t) = []"
| "object_members (TUnion ts) = []"
| "object_members (TFun ps r) = []"

fun decl_members :: "decl \<Rightarrow> member list" where
  "decl_members (ClassDecl d n e i ms) = ms"
| "decl_members (TypeAlias d n t) = object_members t"
| "decl_members (ConstDecl d n t) = object_members t"
| "decl_members (FunctionDecl d n ps r b) = []"

fun member_name :: "member \<Rightarrow> string" where
  "member_name (Field d mods n opt t) = n"
| "member_name (Method d n ps r b) = n"
| "member_name (Ctor d ps b) = ''constructor''"

fun member_doc :: "member \<Rightarrow> string list" where
  "member_doc (Field d mods n opt t) = d"
| "member_doc (Method d n ps r b) = d"
| "member_doc (Ctor d ps b) = d"

fun member_body :: "member \<Rightarrow> string option" where
  "member_body (Field d mods n opt t) = None"
| "member_body (Method d n ps r b) = b"
| "member_body (Ctor d ps b) = b"

fun find_decl :: "decl list \<Rightarrow> string \<Rightarrow> decl option" where
  "find_decl [] n = None"
| "find_decl (d # ds) n = (if decl_name d = n then Some d else find_decl ds n)"

fun find_member :: "member list \<Rightarrow> string \<Rightarrow> member option" where
  "find_member [] n = None"
| "find_member (m # ms) n = (if member_name m = n then Some m else find_member ms n)"

text \<open>The member \<open>m\<close> of the declaration \<open>c\<close> of a module.\<close>

definition lookup_member :: "decl list \<Rightarrow> string \<Rightarrow> string \<Rightarrow> member option" where
  "lookup_member ds c m =
     (case find_decl ds c of None \<Rightarrow> None | Some d \<Rightarrow> find_member (decl_members d) m)"

subsection \<open>Everything written inside a declaration\<close>

text \<open>
  Types nest: a member's type can be an object type with members of its own, a
  parameter's type a function type with parameters of its own. \<open>ty_nodes\<close> lists every
  type expression, parameter and member written inside a type, the outer ones first.
\<close>

datatype node = NType ty | NParam param | NMember member

fun ty_nodes :: "ty \<Rightarrow> node list"
  and param_nodes :: "param \<Rightarrow> node list"
  and member_nodes :: "member \<Rightarrow> node list" where
  "ty_nodes (TName n) = [NType (TName n)]"
| "ty_nodes (TLit s) = [NType (TLit s)]"
| "ty_nodes (TArray t) = NType (TArray t) # ty_nodes t"
| "ty_nodes (TUnion ts) = NType (TUnion ts) # concat (map ty_nodes ts)"
| "ty_nodes (TFun ps r) = NType (TFun ps r) # concat (map param_nodes ps) @ ty_nodes r"
| "ty_nodes (TObj ms) = NType (TObj ms) # concat (map member_nodes ms)"
| "param_nodes (Param n opt rest t) =
     NParam (Param n opt rest t) # (case t of None \<Rightarrow> [] | Some u \<Rightarrow> ty_nodes u)"
| "member_nodes (Field d mods n opt t) =
     NMember (Field d mods n opt t) # (case t of None \<Rightarrow> [] | Some u \<Rightarrow> ty_nodes u)"
| "member_nodes (Method d n ps r b) =
     NMember (Method d n ps r b) # concat (map param_nodes ps)
       @ (case r of None \<Rightarrow> [] | Some u \<Rightarrow> ty_nodes u)"
| "member_nodes (Ctor d ps b) = NMember (Ctor d ps b) # concat (map param_nodes ps)"

fun decl_nodes :: "decl \<Rightarrow> node list" where
  "decl_nodes (TypeAlias d n t) = ty_nodes t"
| "decl_nodes (ConstDecl d n t) = ty_nodes t"
| "decl_nodes (ClassDecl d n e i ms) = concat (map member_nodes ms)"
| "decl_nodes (FunctionDecl d n ps r b) =
     concat (map param_nodes ps) @ (case r of None \<Rightarrow> [] | Some u \<Rightarrow> ty_nodes u)"

fun node_member :: "node \<Rightarrow> member list" where
  "node_member (NMember m) = [m]"
| "node_member (NType t) = []"
| "node_member (NParam p) = []"

fun node_param :: "node \<Rightarrow> param list" where
  "node_param (NParam p) = [p]"
| "node_param (NType t) = []"
| "node_param (NMember m) = []"

text \<open>Every member and every parameter of a declaration, nested ones included.\<close>

definition all_members :: "decl \<Rightarrow> member list" where
  "all_members d = concat (map node_member (decl_nodes d))"

definition all_params :: "decl \<Rightarrow> param list" where
  "all_params d = concat (map node_param (decl_nodes d))"

subsection \<open>Bodies\<close>

text \<open>
  The bodies of a declaration: of its methods and constructors, nested ones included,
  and of a declared function its own.
\<close>

fun own_body :: "decl \<Rightarrow> string list" where
  "own_body (FunctionDecl d n ps r b) = (case b of None \<Rightarrow> [] | Some s \<Rightarrow> [s])"
| "own_body (TypeAlias d n t) = []"
| "own_body (ConstDecl d n t) = []"
| "own_body (ClassDecl d n e i ms) = []"

definition decl_bodies :: "decl \<Rightarrow> string list" where
  "decl_bodies d =
     own_body d @ concat (map (\<lambda>m. case member_body m of None \<Rightarrow> [] | Some s \<Rightarrow> [s]) (all_members d))"

subsection \<open>References between declarations\<close>

fun node_ref :: "node \<Rightarrow> string list" where
  "node_ref (NType (TName n)) = [n]"
| "node_ref (NType (TLit s)) = []"
| "node_ref (NType (TArray t)) = []"
| "node_ref (NType (TUnion ts)) = []"
| "node_ref (NType (TFun ps r)) = []"
| "node_ref (NType (TObj ms)) = []"
| "node_ref (NParam p) = []"
| "node_ref (NMember m) = []"

text \<open>
  The type names a declaration mentions: in its class head and in the types of its
  fields, parameters and results, each name once.
\<close>

definition decl_refs :: "decl \<Rightarrow> string list" where
  "decl_refs d = remdups (heritage d @ concat (map node_ref (decl_nodes d)))"

text \<open>Those of them that another declaration of the module declares.\<close>

definition refs_to_others :: "decl list \<Rightarrow> decl \<Rightarrow> string list" where
  "refs_to_others ds d =
     filter (\<lambda>n. n \<noteq> decl_name d \<and> n \<in> set (map decl_name ds)) (decl_refs d)"

subsection \<open>The superclass chain\<close>

text \<open>
  The chain of superclasses of the declaration named \<open>n\<close>, nearest first. It ends at a
  class with no superclass or at a name the module does not declare. The chain is
  followed for at most as many steps as the module has declarations; \<open>None\<close> says that it
  did not end by then (the heads form a cycle).
\<close>

fun ancestors :: "nat \<Rightarrow> decl list \<Rightarrow> string \<Rightarrow> string list option" where
  "ancestors 0 ds n = None"
| "ancestors (Suc k) ds n =
     (case find_decl ds n of
        None \<Rightarrow> Some []
      | Some d \<Rightarrow>
          (case superclass d of
             None \<Rightarrow> Some []
           | Some s \<Rightarrow> map_option ((#) s) (ancestors k ds s)))"

definition superclasses :: "decl list \<Rightarrow> string \<Rightarrow> string list option" where
  "superclasses ds n = ancestors (length ds) ds n"

text \<open>The class named \<open>n\<close> extends \<open>a\<close>, directly or through a chain of superclasses.\<close>

definition descends_from :: "decl list \<Rightarrow> string \<Rightarrow> string \<Rightarrow> bool" where
  "descends_from ds n a =
     (case superclasses ds n of None \<Rightarrow> False | Some as \<Rightarrow> a \<in> set as)"

definition classes :: "decl list \<Rightarrow> string list" where
  "classes ds = map decl_name (filter (\<lambda>d. decl_kind d = KClass) ds)"

definition constants :: "decl list \<Rightarrow> string list" where
  "constants ds = map decl_name (filter (\<lambda>d. decl_kind d = KConst) ds)"

subsection \<open>Text search\<close>

fun starts_with :: "string \<Rightarrow> string \<Rightarrow> bool" where
  "starts_with s [] = True"
| "starts_with [] (p # ps) = False"
| "starts_with (c # cs) (p # ps) = (c = p \<and> starts_with cs ps)"

fun contains :: "string \<Rightarrow> string \<Rightarrow> bool" where
  "contains [] p = (p = [])"
| "contains (c # cs) p = (starts_with (c # cs) p \<or> contains cs p)"

text \<open>A doc comment mentions a word when one of its lines contains it.\<close>

definition mentions :: "string list \<Rightarrow> string \<Rightarrow> bool" where
  "mentions doc w = list_ex (\<lambda>line. contains line w) doc"

subsection \<open>Failure paths\<close>

fun param_name :: "param \<Rightarrow> string" where
  "param_name (Param n opt rest t) = n"

fun param_optional :: "param \<Rightarrow> bool" where
  "param_optional (Param n opt rest t) = opt"

fun param_type :: "param \<Rightarrow> ty option" where
  "param_type (Param n opt rest t) = t"

fun field_optional :: "member \<Rightarrow> bool" where
  "field_optional (Field d mods n opt t) = opt"
| "field_optional (Method d n ps r b) = False"
| "field_optional (Ctor d ps b) = False"

text \<open>
  The error callbacks of the file are the fields and parameters named \<^verbatim>\<open>onError\<close> or
  \<^verbatim>\<open>onErrorCallback\<close> and the parameters of type \<^verbatim>\<open>ErrorCallback\<close>.
\<close>

definition error_callback_names :: "string list" where
  "error_callback_names = [''onError'', ''onErrorCallback'']"

definition error_fields :: "decl \<Rightarrow> member list" where
  "error_fields d = filter (\<lambda>m. member_name m \<in> set error_callback_names) (all_members d)"

definition error_params :: "decl \<Rightarrow> param list" where
  "error_params d =
     filter (\<lambda>p. param_name p \<in> set error_callback_names
                \<or> param_type p = Some (TName ''ErrorCallback'')) (all_params d)"

text \<open>
  A member documents a sentinel result when its doc comment mentions \<^verbatim>\<open>null\<close> or
  \<^verbatim>\<open>undefined\<close>.
\<close>

definition sentinel_words :: "string list" where
  "sentinel_words = [''null'', ''undefined'']"

definition documents_sentinel :: "member \<Rightarrow> bool" where
  "documents_sentinel m = list_ex (mentions (member_doc m)) sentinel_words"

definition sentinel_documented :: "decl \<Rightarrow> (string \<times> string) list" where
  "sentinel_documented d =
     map (\<lambda>m. (decl_name d, member_name m)) (filter documents_sentinel (all_members d))"

text \<open>The members of a declaration that carry a doc comment, with the comment.\<close>

definition documented_members :: "decl \<Rightarrow> (string \<times> string \<times> string list) list" where
  "documented_members d =
     map (\<lambda>m. (decl_name d, member_name m, member_doc m))
       (filter (\<lambda>m. member_doc m \<noteq> []) (all_members d))"

text \<open>
  The declared result types of a declaration: of its methods and of the function types
  written in it.
\<close>

fun node_result :: "node \<Rightarrow> ty list" where
  "node_result (NType (TFun ps r)) = [r]"
| "node_result (NType (TName n)) = []"
| "node_result (NType (TLit s)) = []"
| "node_result (NType (TArray t)) = []"
| "node_result (NType (TUnion ts)) = []"
| "node_result (NType (TObj ms)) = []"
| "node_result (NParam p) = []"
| "node_result (NMember (Method d n ps r b)) = (case r of None \<Rightarrow> [] | Some u \<Rightarrow> [u])"
| "node_result (NMember (Field d mods n opt t)) = []"
| "node_result (NMember (Ctor d ps b)) = []"

fun own_result :: "decl \<Rightarrow> ty list" where
  "own_result (FunctionDecl d n ps r b) = (case r of None \<Rightarrow> [] | Some u \<Rightarrow> [u])"
| "own_result (TypeAlias d n t) = []"
| "own_result (ConstDecl d n t) = []"
| "own_result (ClassDecl d n e i ms) = []"

definition result_types :: "decl \<Rightarrow> ty list" where
  "result_types d = own_result d @ concat (map node_result (decl_nodes d))"

text \<open>The type names written in the result types of a declaration, each once.\<close>

definition result_names :: "decl \<Rightarrow> string list" where
  "result_names d =
     remdups (concat (map (\<lambda>t. concat (map node_ref (ty_nodes t))) (result_types d)))"

subsection \<open>Scale-gesture handlers\<close>

text \<open>
  A scale-gesture handler is a member whose name starts with \<^verbatim>\<open>on\<close> and contains
  \<^verbatim>\<open>Scale\<close> or \<^verbatim>\<open>scale\<close>.
\<close>

definition is_scale_handler :: "string \<Rightarrow> bool" where
  "is_scale_handler n = (starts_with n ''on'' \<and> (contains n ''Scale'' \<or> contains n ''scale''))"

definition scale_handlers :: "decl \<Rightarrow> string list" where
  "scale_handlers d = filter is_scale_handler (map member_name (all_members d))"

definition declares_member :: "decl \<Rightarrow> string \<Rightarrow> bool" where
  "declares_member d n = (n \<in> set (map member_name (all_members d)))"

section \<open>Evaluating the declarations\<close>

text \<open>
  The facts of this development are computed from the declarations. \<open>eval_simps\<close> are the
  defining equations of the list, option and pair functions the definitions use, and
  \<open>node_simps\<close> those of the traversal; with the equations of the function at hand they
  evaluate a closed term.
\<close>

lemmas eval_simps =
  simp_thms if_True if_False
  list.inject list.distinct char.inject
  option.inject option.distinct option.case option.map
  prod.inject prod.case fst_conv snd_conv
  list.map concat.simps append.simps filter.simps remdups.simps
  list.set insert_iff empty_iff list.size add_Suc_right Nat.add_0_right
  list_all_Nil_iff list_all_Cons_iff list_ex_Nil_iff list_ex_Cons_iff

lemmas node_simps =
  decl_nodes.simps ty_nodes.simps param_nodes.simps member_nodes.simps node_member.simps

lemmas AR_decl_defs =
  AR_RecognizedCallback_def AR_InterruptionCallback_def AR_ErrorCallback_def AR_CONST_def
  AR_ARchitectObject_def AR_ActionArea_def AR_ActionRange_def AR_Drawable_def
  AR_Drawable2D_def AR_ImageDrawable_def AR_AnimatedImageDrawable_def AR_ARObject_def
  AR_ARObjectDrawables_def AR_Animation_def AR_AnimationGroup_def AR_ImageResource_def
  AR_BoundingRectangle_def AR_Location_def AR_GeoLocation_def AR_Circle_def AR_context_def
  AR_hardware_def AR_HtmlDrawable_def AR_GeoObject_def AR_GeoObjectDrawables_def
  AR_EasingCurve_def AR_logger_def AR_platform_def AR_ImageTrackable_def AR_ImageTracker_def
  AR_ImageTrackerOptions_def AR_TargetCollectionResource_def AR_CloudRecognitionService_def
  AR_ImageTrackableOptions_def AR_InstantTrackable_def AR_InstantTrackableOptions_def
  AR_InstantTracker_def AR_EASING_CURVE_TYPE_def AR_DrawableOptions_def
  AR_Drawable2DOptions_def AR_GeoObjectOptions_def AR_Label_def AR_Model_def
  AR_ModelAnimation_def AR_Positionable_def AR_PositionableOptions_def AR_LabelOptions_def
  AR_PropertyAnimation_def AR_RelativeLocation_def AR_callback_def AR_Sound_def AR_Style_def
  AR_VideoDrawable_def AR_radar_def AR_VideoDrawableOptions_def AR_Vector3_def
  AR_EVENT_HANDLERS_def

subsection \<open>Name, kind, superclass and type names of each declaration\<close>

lemma AR_decl_name:
  "decl_name AR_RecognizedCallback = ''RecognizedCallback''"
  "decl_name AR_InterruptionCallback = ''InterruptionCallback''"
  "decl_name AR_ErrorCallback = ''ErrorCallback''"
  "decl_name AR_CONST = ''CONST''"
  "decl_name AR_ARchitectObject = ''ARchitectObject''"
  "decl_name AR_ActionArea = ''ActionArea''"
  "decl_name AR_ActionRange = ''ActionRange''"
  "decl_name AR_Drawable = ''Drawable''"
  "decl_name AR_Drawable2D = ''Drawable2D''"
  "decl_name AR_ImageDrawable = ''ImageDrawable''"
  "decl_name AR_AnimatedImageDrawable = ''AnimatedImageDrawable''"
  "decl_name AR_ARObject = ''ARObject''"
  "decl_name AR_ARObjectDrawables = ''ARObjectDrawables''"
  "decl_name AR_Animation = ''Animation''"
  "decl_name AR_AnimationGroup = ''AnimationGroup''"
  "decl_name AR_ImageResource = ''ImageResource''"
  "decl_name AR_BoundingRectangle = ''BoundingRectangle''"
  "decl_name AR_Location = ''Location''"
  "decl_name AR_GeoLocation = ''GeoLocation''"
  "decl_name AR_Circle = ''Circle''"
  "decl_name AR_context = ''context''"
  "decl_name AR_hardware = ''hardware''"
  "decl_name AR_HtmlDrawable = ''HtmlDrawable''"
  "decl_name AR_GeoObject = ''GeoObject''"
  "decl_name AR_GeoObjectDrawables = ''GeoObjectDrawables''"
  "decl_name AR_EasingCurve = ''EasingCurve''"
  "decl_name AR_logger = ''logger''"
  "decl_name AR_platform = ''platform''"
  "decl_name AR_ImageTrackable = ''ImageTrackable''"
  "decl_name AR_ImageTracker = ''ImageTracker''"
  "decl_name AR_ImageTrackerOptions = ''ImageTrackerOptions''"
  "decl_name AR_TargetCollectionResource = ''TargetCollectionResource''"
  "decl_name AR_CloudRecognitionService = ''CloudRecognitionService''"
  "decl_name AR_ImageTrackableOptions = ''ImageTrackableOptions''"
  "decl_name AR_InstantTrackable = ''InstantTrackable''"
  "decl_name AR_InstantTrackableOptions = ''InstantTrackableOptions''"
  "decl_name AR_InstantTracker = ''InstantTracker''"
  "decl_name AR_EASING_CURVE_TYPE = ''EASING_CURVE_TYPE''"
  "decl_name AR_DrawableOptions = ''DrawableOptions''"
  "decl_name AR_Drawable2DOptions = ''Drawable2DOptions''"
  "decl_name AR_GeoObjectOptions = ''GeoObjectOptions''"
  "decl_name AR_Label = ''Label''"
  "decl_name AR_Model = ''Model''"
  "decl_name AR_ModelAnimation = ''ModelAnimation''"
  "decl_name AR_Positionable = ''Positionable''"
  "decl_name AR_PositionableOptions = ''PositionableOptions''"
  "decl_name AR_LabelOptions = ''LabelOptions''"
  "decl_name AR_PropertyAnimation = ''PropertyAnimation''"
  "decl_name AR_RelativeLocation = ''RelativeLocation''"
  "decl_name AR_callback = ''callback''"
  "decl_name AR_Sound = ''Sound''"
  "decl_name AR_Style = ''Style''"
  "decl_name AR_VideoDrawable = ''VideoDrawable''"
  "decl_name AR_radar = ''radar''"
  "decl_name AR_VideoDrawableOptions = ''VideoDrawableOptions''"
  "decl_name AR_Vector3 = ''Vector3''"
  "decl_name AR_EVENT_HANDLERS = ''_EVENT_HANDLERS''"
  by (simp_all add: AR_decl_defs)

lemma AR_decl_kind:
  "decl_kind AR_RecognizedCallback = KAlias"
  "decl_kind AR_InterruptionCallback = KAlias"
  "decl_kind AR_ErrorCallback = KAlias"
  "decl_kind AR_CONST = KConst"
  "decl_kind AR_ARchitectObject = KClass"
  "decl_kind AR_ActionArea = KClass"
  "decl_kind AR_ActionRange = KClass"
  "decl_kind AR_Drawable = KClass"
  "decl_kind AR_Drawable2D = KClass"
  "decl_kind AR_ImageDrawable = KClass"
  "decl_kind AR_AnimatedImageDrawable = KClass"
  "decl_kind AR_ARObject = KClass"
  "decl_kind AR_ARObjectDrawables = KClass"
  "decl_kind AR_Animation = KClass"
  "decl_kind AR_AnimationGroup = KClass"
  "decl_kind AR_ImageResource = KClass"
  "decl_kind AR_BoundingRectangle = KClass"
  "decl_kind AR_Location = KClass"
  "decl_kind AR_GeoLocation = KClass"
  "decl_kind AR_Circle = KClass"
  "decl_kind AR_context = KConst"
  "decl_kind AR_hardware = KConst"
  "decl_kind AR_HtmlDrawable = KClass"
  "decl_kind AR_GeoObject = KClass"
  "decl_kind AR_GeoObjectDrawables = KClass"
  "decl_kind AR_EasingCurve = KClass"
  "decl_kind AR_logger = KConst"
  "decl_kind AR_platform = KConst"
  "decl_kind AR_ImageTrackable = KClass"
  "decl_kind AR_ImageTracker = KClass"
  "decl_kind AR_ImageTrackerOptions = KClass"
  "decl_kind AR_TargetCollectionResource = KClass"
  "decl_kind AR_CloudRecognitionService = KClass"
  "decl_kind AR_ImageTrackableOptions = KClass"
  "decl_kind AR_InstantTrackable = KClass"
  "decl_kind AR_InstantTrackableOptions = KClass"
  "decl_kind AR_InstantTracker = KClass"
  "decl_kind AR_EASING_CURVE_TYPE = KClass"
  "decl_kind AR_DrawableOptions = KClass"
  "decl_kind AR_Drawable2DOptions = KClass"
  "decl_kind AR_GeoObjectOptions = KClass"
  "decl_kind AR_Label = KClass"
  "decl_kind AR_Model = KClass"
  "decl_kind AR_ModelAnimation = KClass"
  "decl_kind AR_Positionable = KClass"
  "decl_kind AR_PositionableOptions = KClass"
  "decl_kind AR_LabelOptions = KClass"
  "decl_kind AR_PropertyAnimation = KClass"
  "decl_kind AR_RelativeLocation = KClass"
  "decl_kind AR_callback = KAlias"
  "decl_kind AR_Sound = KClass"
  "decl_kind AR_Style = KClass"
  "decl_kind AR_VideoDrawable = KClass"
  "decl_kind AR_radar = KClass"
  "decl_kind AR_VideoDrawableOptions = KClass"
  "decl_kind AR_Vector3 = KClass"
  "decl_kind AR_EVENT_HANDLERS = KClass"
  by (simp_all add: AR_decl_defs)

lemma AR_superclass:
  "superclass AR_RecognizedCallback = None"
  "superclass AR_InterruptionCallback = None"
  "superclass AR_ErrorCallback = None"
  "superclass AR_CONST = None"
  "superclass AR_ARchitectObject = None"
  "superclass AR_ActionArea = Some ''ARchitectObject''"
  "superclass AR_ActionRange = Some ''ActionArea''"
  "superclass AR_Drawable = Some ''ARchitectObject''"
  "superclass AR_Drawable2D = Some ''Drawable''"
  "superclass AR_ImageDrawable = Some ''Drawable2D''"
  "superclass AR_AnimatedImageDrawable = Some ''ImageDrawable''"
  "superclass AR_ARObject = Some ''ARchitectObject''"
  "superclass AR_ARObjectDrawables = None"
  "superclass AR_Animation = Some ''ARchitectObject''"
  "superclass AR_AnimationGroup = Some ''Animation''"
  "superclass AR_ImageResource = Some ''ARchitectObject''"
  "superclass AR_BoundingRectangle = None"
  "superclass AR_Location = Some ''ARchitectObject''"
  "superclass AR_GeoLocation = Some ''Location''"
  "superclass AR_Circle = Some ''Drawable2D''"
  "superclass AR_context = None"
  "superclass AR_hardware = None"
  "superclass AR_HtmlDrawable = Some ''Drawable2D''"
  "superclass AR_GeoObject = Some ''ARObject''"
  "superclass AR_GeoObjectDrawables = Some ''ARObjectDrawables''"
  "superclass AR_EasingCurve = Some ''ARchitectObject''"
  "superclass AR_logger = None"
  "superclass AR_platform = None"
  "superclass AR_ImageTrackable = Some ''ARObject''"
  "superclass AR_ImageTracker = Some ''ARchitectObject''"
  "superclass AR_ImageTrackerOptions = None"
  "superclass AR_TargetCollectionResource = Some ''ARchitectObject''"
  "superclass AR_CloudRecognitionService = Some ''ARchitectObject''"
  "superclass AR_ImageTrackableOptions = Some ''Drawable2DOptions''"
  "superclass AR_InstantTrackable = Some ''ARObject''"
  "superclass AR_InstantTrackableOptions = Some ''_EVENT_HANDLERS''"
  "superclass AR_InstantTracker = Some ''ARchitectObject''"
  "superclass AR_EASING_CURVE_TYPE = None"
  "superclass AR_DrawableOptions = Some ''_EVENT_HANDLERS''"
  "superclass AR_Drawable2DOptions = Some ''DrawableOptions''"
  "superclass AR_GeoObjectOptions = Some ''DrawableOptions''"
  "superclass AR_Label = Some ''Drawable2D''"
  "superclass AR_Model = Some ''Drawable''"
  "superclass AR_ModelAnimation = Some ''Animation''"
  "superclass AR_Positionable = Some ''ARObject''"
  "superclass AR_PositionableOptions = Some ''DrawableOptions''"
  "superclass AR_LabelOptions = Some ''Drawable2DOptions''"
  "superclass AR_PropertyAnimation = Some ''Animation''"
  "superclass AR_RelativeLocation = Some ''Location''"
  "superclass AR_callback = None"
  "superclass AR_Sound = Some ''ARchitectObject''"
  "superclass AR_Style = None"
  "superclass AR_VideoDrawable = Some ''Drawable2D''"
  "superclass AR_radar = None"
  "superclass AR_VideoDrawableOptions = Some ''Drawable2DOptions''"
  "superclass AR_Vector3 = None"
  "superclass AR_EVENT_HANDLERS = None"
  by (simp_all add: AR_decl_defs)

lemma AR_decl_refs:
  "decl_refs AR_RecognizedCallback = [''boolean'', ''any'', ''void'']"
  "decl_refs AR_InterruptionCallback = [''number'', ''void'']"
  "decl_refs AR_ErrorCallback = [''number'', ''Error'', ''void'']"
  "decl_refs AR_CONST = [''EASING_CURVE_TYPE'', ''string'', ''number'']"
  "decl_refs AR_ARchitectObject = [''boolean'', ''void'']"
  "decl_refs AR_ActionArea = [''ARchitectObject'', ''Geolocation'', ''boolean'', ''void'']"
  "decl_refs AR_ActionRange = [''ActionArea'', ''Location'', ''number'', ''boolean'', ''void'']"
  "decl_refs AR_Drawable =
     [''ARchitectObject'', ''DrawableOptions'', ''boolean'', ''Vector3'', ''ARObject'',
      ''number'', ''void'']"
  "decl_refs AR_Drawable2D =
     [''Drawable'', ''Drawable2DOptions'', ''number'', ''BoundingRectangle'']"
  "decl_refs AR_ImageDrawable =
     [''Drawable2D'', ''ImageResource'', ''number'', ''Drawable2DOptions'']"
  "decl_refs AR_AnimatedImageDrawable =
     [''ImageDrawable'', ''ImageResource'', ''Drawable2DOptions'', ''number'']"
  "decl_refs AR_ARObject =
     [''ARchitectObject'', ''ARObjectDrawables'', ''boolean'', ''ARObject'', ''number'',
      ''void'']"
  "decl_refs AR_ARObjectDrawables = [''Drawable'', ''number'', ''void'']"
  "decl_refs AR_Animation = [''ARchitectObject'', ''boolean'', ''void'']"
  "decl_refs AR_AnimationGroup = [''string'', ''Animation'', ''void'']"
  "decl_refs AR_ImageResource =
     [''ARchitectObject'', ''number'', ''string'', ''boolean'', ''void'']"
  "decl_refs AR_BoundingRectangle = [''number'']"
  "decl_refs AR_Location = [''ARchitectObject'', ''Location'', ''number'']"
  "decl_refs AR_GeoLocation = [''Location'', ''number'']"
  "decl_refs AR_Circle = [''Drawable2D'', ''string'', ''number'', ''Drawable2DOptions'']"
  "decl_refs AR_context = [''boolean'', ''string'', ''number'', ''void'']"
  "decl_refs AR_hardware = [''boolean'', ''number'']"
  "decl_refs AR_HtmlDrawable = [''Drawable2D'', ''boolean'', ''number'', ''string'']"
  "decl_refs AR_GeoObject =
     [''ARObject'', ''GeoObjectDrawables'', ''Location'', ''GeoObjectOptions'']"
  "decl_refs AR_GeoObjectDrawables =
     [''ARObjectDrawables'', ''Location'', ''Drawable2D'', ''number'', ''void'']"
  "decl_refs AR_EasingCurve = [''ARchitectObject'', ''string'', ''number'']"
  "decl_refs AR_logger = [''string'', ''void'']"
  "decl_refs AR_platform = [''any'']"
  "decl_refs AR_ImageTrackable =
     [''ARObject'', ''boolean'', ''ImageTracker'', ''ImageTrackableOptions'', ''string'',
      ''number'', ''void'']"
  "decl_refs AR_ImageTracker =
     [''ARchitectObject'', ''boolean'', ''any'', ''TargetCollectionResource'',
      ''CloudRecognitionService'', ''ImageTrackerOptions'', ''void'']"
  "decl_refs AR_ImageTrackerOptions = [''boolean'', ''any'', ''void'']"
  "decl_refs AR_TargetCollectionResource =
     [''ARchitectObject'', ''boolean'', ''string'', ''void'']"
  "decl_refs AR_CloudRecognitionService =
     [''ARchitectObject'', ''string'', ''number'', ''InterruptionCallback'',
      ''RecognizedCallback'', ''ErrorCallback'', ''void'']"
  "decl_refs AR_ImageTrackableOptions =
     [''Drawable2DOptions'', ''Drawable'', ''number'', ''boolean'', ''string'', ''void'']"
  "decl_refs AR_InstantTrackable =
     [''ARObject'', ''InstantTracker'', ''InstantTrackableOptions'', ''number'', ''void'']"
  "decl_refs AR_InstantTrackableOptions =
     [''_EVENT_HANDLERS'', ''boolean'', ''Drawable'', ''number'', ''void'']"
  "decl_refs AR_InstantTracker =
     [''ARchitectObject'', ''string'', ''boolean'', ''number'', ''void'']"
  "decl_refs AR_EASING_CURVE_TYPE = []"
  "decl_refs AR_DrawableOptions = [''_EVENT_HANDLERS'', ''boolean'', ''Vector3'']"
  "decl_refs AR_Drawable2DOptions = [''DrawableOptions'', ''number'']"
  "decl_refs AR_GeoObjectOptions = [''DrawableOptions'', ''Drawable2D'', ''number'', ''void'']"
  "decl_refs AR_Label = [''Drawable2D'', ''string'', ''number'', ''LabelOptions'']"
  "decl_refs AR_Model = [''Drawable'', ''string'', ''DrawableOptions'', ''boolean'', ''void'']"
  "decl_refs AR_ModelAnimation = [''Animation'', ''Model'', ''string'', ''void'', ''number'']"
  "decl_refs AR_Positionable = [''ARObject'', ''string'', ''PositionableOptions'']"
  "decl_refs AR_PositionableOptions = [''DrawableOptions'', ''Drawable'', ''void'']"
  "decl_refs AR_LabelOptions = [''Drawable2DOptions'', ''string'', ''number'']"
  "decl_refs AR_PropertyAnimation =
     [''Animation'', ''ARchitectObject'', ''string'', ''number'', ''EasingCurve'', ''void'']"
  "decl_refs AR_RelativeLocation = [''Location'', ''number'']"
  "decl_refs AR_callback = [''any'', ''void'']"
  "decl_refs AR_Sound = [''ARchitectObject'', ''string'', ''number'', ''callback'']"
  "decl_refs AR_Style = [''number'', ''string'']"
  "decl_refs AR_VideoDrawable =
     [''Drawable2D'', ''VideoDrawableOptions'', ''string'', ''boolean'', ''number'',
      ''callback'']"
  "decl_refs AR_radar = [''Element'', ''boolean'', ''ImageResource'', ''number'']"
  "decl_refs AR_VideoDrawableOptions = [''Drawable2DOptions'', ''boolean'', ''callback'']"
  "decl_refs AR_Vector3 = [''number'', ''Vector3'']"
  "decl_refs AR_EVENT_HANDLERS = [''ARObject'', ''number'', ''void'']"
  by (simp_all add: AR_decl_defs decl_refs_def)


subsection \<open>The module as a whole\<close>

lemma AR_names:
  "map decl_name AR =
     [''RecognizedCallback'', ''InterruptionCallback'', ''ErrorCallback'', ''CONST'',
      ''ARchitectObject'', ''ActionArea'', ''ActionRange'', ''Drawable'', ''Drawable2D'',
      ''ImageDrawable'', ''AnimatedImageDrawable'', ''ARObject'', ''ARObjectDrawables'',
      ''Animation'', ''AnimationGroup'', ''ImageResource'', ''BoundingRectangle'', ''Location'',
      ''GeoLocation'', ''Circle'', ''context'', ''hardware'', ''HtmlDrawable'', ''GeoObject'',
      ''GeoObjectDrawables'', ''EasingCurve'', ''logger'', ''platform'', ''ImageTrackable'',
      ''ImageTracker'', ''ImageTrackerOptions'', ''TargetCollectionResource'',
      ''CloudRecognitionService'', ''ImageTrackableOptions'', ''InstantTrackable'',
      ''InstantTrackableOptions'', ''InstantTracker'', ''EASING_CURVE_TYPE'', ''DrawableOptions'',
      ''Drawable2DOptions'', ''GeoObjectOptions'', ''Label'', ''Model'', ''ModelAnimation'',
      ''Positionable'', ''PositionableOptions'', ''LabelOptions'', ''PropertyAnimation'',
      ''RelativeLocation'', ''callback'', ''Sound'', ''Style'', ''VideoDrawable'', ''radar'',
      ''VideoDrawableOptions'', ''Vector3'', ''_EVENT_HANDLERS'']"
  by (simp add: AR_def AR_decl_name)

lemma AR_classes:
  "classes AR =
     [''ARchitectObject'', ''ActionArea'', ''ActionRange'', ''Drawable'', ''Drawable2D'',
      ''ImageDrawable'', ''AnimatedImageDrawable'', ''ARObject'', ''ARObjectDrawables'',
      ''Animation'', ''AnimationGroup'', ''ImageResource'', ''BoundingRectangle'', ''Location'',
      ''GeoLocation'', ''Circle'', ''HtmlDrawable'', ''GeoObject'', ''GeoObjectDrawables'',
      ''EasingCurve'', ''ImageTrackable'', ''ImageTracker'', ''ImageTrackerOptions'',
      ''TargetCollectionResource'', ''CloudRecognitionService'', ''ImageTrackableOptions'',
      ''InstantTrackable'', ''InstantTrackableOptions'', ''InstantTracker'',
      ''EASING_CURVE_TYPE'', ''DrawableOptions'', ''Drawable2DOptions'', ''GeoObjectOptions'',
      ''Label'', ''Model'', ''ModelAnimation'', ''Positionable'', ''PositionableOptions'',
      ''LabelOptions'', ''PropertyAnimation'', ''RelativeLocation'', ''Sound'', ''Style'',
      ''VideoDrawable'', ''radar'', ''VideoDrawableOptions'', ''Vector3'', ''_EVENT_HANDLERS'']"
  by (simp add: classes_def AR_def AR_decl_name AR_decl_kind)

lemma AR_constants:
  "constants AR = [''CONST'', ''context'', ''hardware'', ''logger'', ''platform'']"
  by (simp add: constants_def AR_def AR_decl_name AR_decl_kind)

lemma AR_superclasses:
  "superclasses AR ''ARchitectObject'' = Some []"
  "superclasses AR ''ActionArea'' = Some [''ARchitectObject'']"
  "superclasses AR ''ActionRange'' = Some [''ActionArea'', ''ARchitectObject'']"
  "superclasses AR ''Drawable'' = Some [''ARchitectObject'']"
  "superclasses AR ''Drawable2D'' = Some [''Drawable'', ''ARchitectObject'']"
  "superclasses AR ''ImageDrawable'' = Some [''Drawable2D'', ''Drawable'', ''ARchitectObject'']"
  "superclasses AR ''AnimatedImageDrawable'' =
     Some [''ImageDrawable'', ''Drawable2D'', ''Drawable'', ''ARchitectObject'']"
  "superclasses AR ''ARObject'' = Some [''ARchitectObject'']"
  "superclasses AR ''ARObjectDrawables'' = Some []"
  "superclasses AR ''Animation'' = Some [''ARchitectObject'']"
  "superclasses AR ''AnimationGroup'' = Some [''Animation'', ''ARchitectObject'']"
  "superclasses AR ''ImageResource'' = Some [''ARchitectObject'']"
  "superclasses AR ''BoundingRectangle'' = Some []"
  "superclasses AR ''Location'' = Some [''ARchitectObject'']"
  "superclasses AR ''GeoLocation'' = Some [''Location'', ''ARchitectObject'']"
  "superclasses AR ''Circle'' = Some [''Drawable2D'', ''Drawable'', ''ARchitectObject'']"
  "superclasses AR ''HtmlDrawable'' = Some [''Drawable2D'', ''Drawable'', ''ARchitectObject'']"
  "superclasses AR ''GeoObject'' = Some [''ARObject'', ''ARchitectObject'']"
  "superclasses AR ''GeoObjectDrawables'' = Some [''ARObjectDrawables'']"
  "superclasses AR ''EasingCurve'' = Some [''ARchitectObject'']"
  "superclasses AR ''ImageTrackable'' = Some [''ARObject'', ''ARchitectObject'']"
  "superclasses AR ''ImageTracker'' = Some [''ARchitectObject'']"
  "superclasses AR ''ImageTrackerOptions'' = Some []"
  "superclasses AR ''TargetCollectionResource'' = Some [''ARchitectObject'']"
  "superclasses AR ''CloudRecognitionService'' = Some [''ARchitectObject'']"
  "superclasses AR ''ImageTrackableOptions'' =
     Some [''Drawable2DOptions'', ''DrawableOptions'', ''_EVENT_HANDLERS'']"
  "superclasses AR ''InstantTrackable'' = Some [''ARObject'', ''ARchitectObject'']"
  "superclasses AR ''InstantTrackableOptions'' = Some [''_EVENT_HANDLERS'']"
  "superclasses AR ''InstantTracker'' = Some [''ARchitectObject'']"
  "superclasses AR ''EASING_CURVE_TYPE'' = Some []"
  "superclasses AR ''DrawableOptions'' = Some [''_EVENT_HANDLERS'']"
  "superclasses AR ''Drawable2DOptions'' = Some [''DrawableOptions'', ''_EVENT_HANDLERS'']"
  "superclasses AR ''GeoObjectOptions'' = Some [''DrawableOptions'', ''_EVENT_HANDLERS'']"
  "superclasses AR ''Label'' = Some [''Drawable2D'', ''Drawable'', ''ARchitectObject'']"
  "superclasses AR ''Model'' = Some [''Drawable'', ''ARchitectObject'']"
  "superclasses AR ''ModelAnimation'' = Some [''Animation'', ''ARchitectObject'']"
  "superclasses AR ''Positionable'' = Some [''ARObject'', ''ARchitectObject'']"
  "superclasses AR ''PositionableOptions'' = Some [''DrawableOptions'', ''_EVENT_HANDLERS'']"
  "superclasses AR ''LabelOptions'' =
     Some [''Drawable2DOptions'', ''DrawableOptions'', ''_EVENT_HANDLERS'']"
  "superclasses AR ''PropertyAnimation'' = Some [''Animation'', ''ARchitectObject'']"
  "superclasses AR ''RelativeLocation'' = Some [''Location'', ''ARchitectObject'']"
  "superclasses AR ''Sound'' = Some [''ARchitectObject'']"
  "superclasses AR ''Style'' = Some []"
  "superclasses AR ''VideoDrawable'' = Some [''Drawable2D'', ''Drawable'', ''ARchitectObject'']"
  "superclasses AR ''radar'' = Some []"
  "superclasses AR ''VideoDrawableOptions'' =
     Some [''Drawable2DOptions'', ''DrawableOptions'', ''_EVENT_HANDLERS'']"
  "superclasses AR ''Vector3'' = Some []"
  "superclasses AR ''_EVENT_HANDLERS'' = Some []"
  by (simp_all only: superclasses_def AR_def AR_decl_name AR_superclass ancestors.simps
      find_decl.simps eval_simps cong: if_weak_cong)

lemma AR_independent:
  "map decl_name (filter (\<lambda>d. refs_to_others AR d = []) AR) =
     [''RecognizedCallback'', ''InterruptionCallback'', ''ErrorCallback'', ''ARchitectObject'',
      ''BoundingRectangle'', ''context'', ''hardware'', ''logger'', ''platform'',
      ''ImageTrackerOptions'', ''EASING_CURVE_TYPE'', ''callback'', ''Style'', ''Vector3'']"
  by (simp only: refs_to_others_def AR_names)
     (simp only: AR_def AR_decl_name AR_decl_refs eval_simps cong: if_weak_cong)

lemma AR_no_bodies: "concat (map decl_bodies AR) = []"
  by (simp only: AR_def AR_decl_defs decl_bodies_def all_members_def own_body.simps
      member_body.simps node_simps eval_simps cong: if_weak_cong)

lemma AR_sentinel_documented:
  "concat (map sentinel_documented AR) =
     [(''Drawable2D'', ''getBoundingRectangle''), (''Location'', ''distanceToUser'')]"
  by (simp only: AR_def AR_decl_defs sentinel_documented_def documents_sentinel_def
      mentions_def sentinel_words_def all_members_def decl_name.simps member_name.simps
      member_doc.simps contains.simps starts_with.simps node_simps eval_simps cong: if_weak_cong)

lemma AR_error_fields:
  "map field_optional (concat (map error_fields AR)) =
     [True, True, True, True, True, True, True, True, True, True, True, True, True]"
  by (simp only: AR_def AR_decl_defs error_fields_def error_callback_names_def
      all_members_def member_name.simps field_optional.simps node_simps eval_simps cong: if_weak_cong)

lemma AR_error_field_owners:
  "map (\<lambda>d. (decl_name d, map field_optional (error_fields d)))
     (filter (\<lambda>d. error_fields d \<noteq> []) AR) =
     [(''ImageResource'', [True, True]), (''context'', [True]), (''ImageTracker'', [True]),
      (''ImageTrackerOptions'', [True]), (''TargetCollectionResource'', [True, True]),
      (''CloudRecognitionService'', [True]), (''InstantTracker'', [True, True]),
      (''Model'', [True]), (''Sound'', [True, True])]"
  by (simp only: AR_def AR_decl_defs error_fields_def error_callback_names_def
      all_members_def decl_name.simps member_name.simps field_optional.simps node_simps eval_simps cong: if_weak_cong)

lemma AR_error_param_owners:
  "map (\<lambda>d. (decl_name d, error_params d)) (filter (\<lambda>d. error_params d \<noteq> []) AR) =
     [(''CloudRecognitionService'',
       [Param ''onError'' True False (Some (TName ''ErrorCallback'')),
        Param ''onErrorCallback'' True False (Some (TName ''ErrorCallback''))])]"
  by (simp only: AR_def AR_decl_defs error_params_def error_callback_names_def
      all_params_def decl_name.simps param_name.simps param_type.simps node_param.simps
      ty.inject ty.distinct node_simps eval_simps cong: if_weak_cong)

lemma AR_documented_members:
  \<open>concat (map documented_members AR) =
     [(''ActionArea'', ''isInArea'',
       [''checks if a certain location is within this ActionArea.'',
        ''@param geoLocation - the GeoLocation that should be checked.'',
        ''@returns {boolean} true if the geoLocation passed to the method is within the ActionArea, false if the geoLocation passed to the method is not in the ActionArea'']),
      (''ActionArea'', ''onEnter'',
       [''The trigger is executed when the user enters the ActionArea.'']),
      (''ActionArea'', ''onExit'',
       [''The trigger is executed when the user leaves the ActionArea.'']),
      (''ActionRange'', ''constructor'',
       [''@param location - a single Location defining the center point of the circle.'',
        ''@param radius - the radius of the ActionRange in meters.'',
        ''@param options - Setup-Parameters to customize additional object properties.'']),
      (''Drawable2D'', ''getBoundingRectangle'',
       [''Returns the BoundingRectangle for this Drawable2D. In case of an error, null will be returned.'',
        ''@returns {BoundingRectangle} - the BoundingRectangle for the Drawable2D.'']),
      (''Location'', ''distanceTo'',
       [''Returns the shortest distance ("as the crow flies") to the Location passed as an argument, ignoring any altitude property.'',
        ''@param {Location} location - The Location the distance should be calculated for.'',
        ''@returns {number} - The numeric distance in meters.'']),
      (''Location'', ''distanceToUser'',
       [''Returns the shortest distance ("as the crow flies") to the current location of the user, ignoring any altitude property.'',
        ''If the current position of the user cannot be determined, undefined will be returned.'',
        ''@returns {number|undefined}''])]\<close>
  by (simp only: AR_def AR_decl_defs documented_members_def all_members_def decl_name.simps
      member_name.simps member_doc.simps node_simps eval_simps cong: if_weak_cong)

lemma AR_error_params:
  "concat (map error_params AR) =
     [Param ''onError'' True False (Some (TName ''ErrorCallback'')),
      Param ''onErrorCallback'' True False (Some (TName ''ErrorCallback''))]"
  by (simp only: AR_def AR_decl_defs error_params_def error_callback_names_def
      all_params_def param_name.simps param_type.simps node_param.simps ty.inject
      ty.distinct node_simps eval_simps cong: if_weak_cong)

lemma AR_result_names:
  "remdups (concat (map result_names AR)) =
     [''BoundingRectangle'', ''number'', ''string'', ''boolean'', ''void'']"
  by (simp only: AR_def AR_decl_defs result_names_def result_types_def own_result.simps
      node_result.simps node_ref.simps node_simps eval_simps cong: if_weak_cong)

lemma AR_scale_handlers:
  "map (\<lambda>d. (decl_name d, scale_handlers d)) (filter (\<lambda>d. scale_handlers d \<noteq> []) AR) =
     [(''Drawable'', [''onScaleBegan'', ''onScaleChanged'', ''onscaleEnded'']),
      (''ARObject'', [''onScaleBegan'', ''onScaleChanged'', ''onscaleEnded'']),
      (''context'', [''onScaleBegan'', ''onScaleChanged'', ''onscaleEnded'']),
      (''_EVENT_HANDLERS'', [''onScaleBegan'', ''onScaleChanged'', ''onscaleEnded''])]"
  by (simp only: AR_def AR_decl_defs scale_handlers_def is_scale_handler_def
      all_members_def decl_name.simps member_name.simps contains.simps starts_with.simps
      node_simps eval_simps cong: if_weak_cong)

lemma AR_no_onScaleEnded: "filter (\<lambda>d. declares_member d ''onScaleEnded'') AR = []"
  by (simp only: AR_def AR_decl_defs declares_member_def all_members_def
      member_name.simps node_simps eval_simps cong: if_weak_cong)

section \<open>The claims\<close>

text \<open>
  C1. The file holds no executable logic: every top-level declaration of the module is
  a class, a constant or a type alias, and no method, constructor or function of the
  file, nested ones included, has a body.
\<close>

theorem AR_signatures_only:
  "list_all (\<lambda>d. decl_kind d = KClass \<or> decl_kind d = KConst \<or> decl_kind d = KAlias) AR
   \<and> concat (map decl_bodies AR) = []"
  using AR_no_bodies by (simp add: AR_def AR_decl_kind)

text \<open>
  C2, as stated, fails: the claim says that no declaration names another one, but the
  class \<^verbatim>\<open>ActionRange\<close> extends the declared class \<^verbatim>\<open>ActionArea\<close>, and \<^verbatim>\<open>ModelAnimation\<close>
  names \<^verbatim>\<open>Animation\<close> in its head and \<^verbatim>\<open>Model\<close> in its constructor.
\<close>

theorem AR_declarations_name_each_other:
  "map_option superclass (find_decl AR ''ActionRange'') = Some (Some ''ActionArea'')
   \<and> ''ActionArea'' \<in> set (classes AR)
   \<and> map_option (refs_to_others AR) (find_decl AR ''ModelAnimation'')
       = Some [''Animation'', ''Model'']"
  by (simp add: AR_classes)
     (simp add: AR_def AR_decl_name AR_superclass AR_decl_refs refs_to_others_def)

text \<open>
  C2, amended. Declarations of the module name one another: \<^verbatim>\<open>ActionRange\<close> names the
  declared \<^verbatim>\<open>ActionArea\<close> and \<^verbatim>\<open>Location\<close>, \<^verbatim>\<open>ModelAnimation\<close> the declared \<^verbatim>\<open>Animation\<close> and
  \<^verbatim>\<open>Model\<close>. Of the 57 declarations, 43 name another declaration of the module; the
  fourteen that name none are exactly the ones listed.
\<close>

theorem AR_independent_declarations:
  "map decl_name (filter (\<lambda>d. refs_to_others AR d = []) AR) =
     [''RecognizedCallback'', ''InterruptionCallback'', ''ErrorCallback'', ''ARchitectObject'',
      ''BoundingRectangle'', ''context'', ''hardware'', ''logger'', ''platform'',
      ''ImageTrackerOptions'', ''EASING_CURVE_TYPE'', ''callback'', ''Style'', ''Vector3'']
   \<and> length AR = 57
   \<and> length (filter (\<lambda>d. refs_to_others AR d \<noteq> []) AR) = 43
   \<and> map_option (refs_to_others AR) (find_decl AR ''ActionRange'')
       = Some [''ActionArea'', ''Location'']
   \<and> map_option (refs_to_others AR) (find_decl AR ''ModelAnimation'')
       = Some [''Animation'', ''Model'']"
proof -
  have "length (map decl_name (filter (\<lambda>d. refs_to_others AR d = []) AR)) = 14"
    by (simp only: AR_independent) simp
  then have none: "length (filter (\<lambda>d. refs_to_others AR d = []) AR) = 14"
    by simp
  have total: "length AR = 57"
    by (simp add: AR_def)
  have "length (filter (\<lambda>d. refs_to_others AR d = []) AR)
        + length (filter (\<lambda>d. refs_to_others AR d \<noteq> []) AR) = length AR"
    by (rule sum_length_filter_compl)
  with none total have some: "length (filter (\<lambda>d. refs_to_others AR d \<noteq> []) AR) = 43"
    by simp
  have examples:
    "map_option (refs_to_others AR) (find_decl AR ''ActionRange'')
       = Some [''ActionArea'', ''Location'']"
    "map_option (refs_to_others AR) (find_decl AR ''ModelAnimation'')
       = Some [''Animation'', ''Model'']"
    by (simp_all add: AR_def AR_decl_name AR_decl_refs refs_to_others_def)
  show ?thesis
    using total some examples by (simp only: AR_independent simp_thms)
qed

text \<open>
  C3, as stated, fails: \<^verbatim>\<open>BoundingRectangle\<close> is a class of the module with no superclass,
  so it does not extend \<^verbatim>\<open>ARchitectObject\<close>.
\<close>

theorem BoundingRectangle_not_ARchitectObject:
  "''BoundingRectangle'' \<in> set (classes AR)
   \<and> superclasses AR ''BoundingRectangle'' = Some []
   \<and> \<not> descends_from AR ''BoundingRectangle'' ''ARchitectObject''"
  by (simp only: AR_classes descends_from_def AR_superclasses eval_simps)

text \<open>
  C3, amended. Every superclass chain of the module ends. Thirty of its classes extend
  \<^verbatim>\<open>ARchitectObject\<close> directly or through a chain of declared superclasses; the classes
  that do not are \<^verbatim>\<open>ARchitectObject\<close> itself and the seventeen option, helper and
  descriptor classes listed.
\<close>

theorem AR_ARchitectObject_descendants:
  "list_all (\<lambda>n. superclasses AR n \<noteq> None) (classes AR)
   \<and> filter (\<lambda>n. descends_from AR n ''ARchitectObject'') (classes AR) =
       [''ActionArea'', ''ActionRange'', ''Drawable'', ''Drawable2D'', ''ImageDrawable'',
        ''AnimatedImageDrawable'', ''ARObject'', ''Animation'', ''AnimationGroup'',
        ''ImageResource'', ''Location'', ''GeoLocation'', ''Circle'', ''HtmlDrawable'',
        ''GeoObject'', ''EasingCurve'', ''ImageTrackable'', ''ImageTracker'',
        ''TargetCollectionResource'', ''CloudRecognitionService'', ''InstantTrackable'',
        ''InstantTracker'', ''Label'', ''Model'', ''ModelAnimation'', ''Positionable'',
        ''PropertyAnimation'', ''RelativeLocation'', ''Sound'', ''VideoDrawable'']
   \<and> filter (\<lambda>n. \<not> descends_from AR n ''ARchitectObject'') (classes AR) =
       [''ARchitectObject'', ''ARObjectDrawables'', ''BoundingRectangle'',
        ''GeoObjectDrawables'', ''ImageTrackerOptions'', ''ImageTrackableOptions'',
        ''InstantTrackableOptions'', ''EASING_CURVE_TYPE'', ''DrawableOptions'',
        ''Drawable2DOptions'', ''GeoObjectOptions'', ''PositionableOptions'', ''LabelOptions'',
        ''Style'', ''radar'', ''VideoDrawableOptions'', ''Vector3'', ''_EVENT_HANDLERS'']"
  by (simp only: AR_classes descends_from_def AR_superclasses eval_simps cong: if_weak_cong)

text \<open>
  C4. \<^verbatim>\<open>ARchitectObject\<close> is a class whose body has exactly two members: the field
  \<^verbatim>\<open>destroyed: boolean\<close> and the method \<^verbatim>\<open>destroy(): void\<close>, which takes no argument.
\<close>

theorem ARchitectObject_members:
  "map_option decl_kind (find_decl AR ''ARchitectObject'') = Some KClass
   \<and> map_option decl_members (find_decl AR ''ARchitectObject'') =
       Some [Field [] [] ''destroyed'' False (Some (TName ''boolean'')),
             Method [] ''destroy'' [] (Some (TName ''void'')) None]"
  by (simp add: AR_def AR_decl_name AR_decl_kind) (simp add: AR_ARchitectObject_def)

text \<open>
  C5, as stated, fails: the claim says that no documentation of a method provides an
  error result other than a callback, but the doc comment of
  \<^verbatim>\<open>Drawable2D.getBoundingRectangle\<close> says that \<^verbatim>\<open>null\<close> is returned in case of an error.
\<close>

theorem getBoundingRectangle_documents_null:
  "map_option member_doc (lookup_member AR ''Drawable2D'' ''getBoundingRectangle'') =
     Some [''Returns the BoundingRectangle for this Drawable2D. In case of an error, null will be returned.'',
           ''@returns {BoundingRectangle} - the BoundingRectangle for the Drawable2D.'']
   \<and> map_option documents_sentinel (lookup_member AR ''Drawable2D'' ''getBoundingRectangle'')
       = Some True"
  by (simp add: lookup_member_def AR_def AR_decl_name)
     (simp add: AR_Drawable2D_def documents_sentinel_def mentions_def sentinel_words_def)

text \<open>
  C5, amended. Failure is not reported through callbacks alone. Every field named
  \<^verbatim>\<open>onError\<close> is optional: there are thirteen, in \<^verbatim>\<open>ImageResource\<close>, \<^verbatim>\<open>context\<close>,
  \<^verbatim>\<open>ImageTracker\<close>, \<^verbatim>\<open>ImageTrackerOptions\<close>, \<^verbatim>\<open>TargetCollectionResource\<close>,
  \<^verbatim>\<open>CloudRecognitionService\<close>, \<^verbatim>\<open>InstantTracker\<close>, \<^verbatim>\<open>Model\<close> and \<^verbatim>\<open>Sound\<close>. The parameters
  named \<^verbatim>\<open>onError\<close> or \<^verbatim>\<open>onErrorCallback\<close> or of type \<^verbatim>\<open>ErrorCallback\<close> are the two of
  \<^verbatim>\<open>CloudRecognitionService\<close>, both optional and of type \<^verbatim>\<open>ErrorCallback\<close>. The result types
  declared in the file name only \<^verbatim>\<open>BoundingRectangle\<close>, \<^verbatim>\<open>number\<close>, \<^verbatim>\<open>string\<close>, \<^verbatim>\<open>boolean\<close>
  and \<^verbatim>\<open>void\<close>. Seven members carry a doc comment, with the texts below; the two of them
  that mention \<^verbatim>\<open>null\<close> or \<^verbatim>\<open>undefined\<close> are \<^verbatim>\<open>Drawable2D.getBoundingRectangle\<close>, which
  documents \<^verbatim>\<open>null\<close> in case of an error, and \<^verbatim>\<open>Location.distanceToUser\<close>, which documents
  \<^verbatim>\<open>undefined\<close> when the position of the user cannot be determined.
\<close>

theorem AR_failure_paths:
  \<open>list_all field_optional (concat (map error_fields AR))
   \<and> length (concat (map error_fields AR)) = 13
   \<and> map (\<lambda>d. (decl_name d, map field_optional (error_fields d)))
         (filter (\<lambda>d. error_fields d \<noteq> []) AR) =
       [(''ImageResource'', [True, True]), (''context'', [True]), (''ImageTracker'', [True]),
        (''ImageTrackerOptions'', [True]), (''TargetCollectionResource'', [True, True]),
        (''CloudRecognitionService'', [True]), (''InstantTracker'', [True, True]),
        (''Model'', [True]), (''Sound'', [True, True])]
   \<and> list_all param_optional (concat (map error_params AR))
   \<and> map (\<lambda>d. (decl_name d, error_params d)) (filter (\<lambda>d. error_params d \<noteq> []) AR) =
       [(''CloudRecognitionService'',
         [Param ''onError'' True False (Some (TName ''ErrorCallback'')),
          Param ''onErrorCallback'' True False (Some (TName ''ErrorCallback''))])]
   \<and> remdups (concat (map result_names AR)) =
       [''BoundingRectangle'', ''number'', ''string'', ''boolean'', ''void'']
   \<and> concat (map documented_members AR) =
       [(''ActionArea'', ''isInArea'',
         [''checks if a certain location is within this ActionArea.'',
          ''@param geoLocation - the GeoLocation that should be checked.'',
          ''@returns {boolean} true if the geoLocation passed to the method is within the ActionArea, false if the geoLocation passed to the method is not in the ActionArea'']),
        (''ActionArea'', ''onEnter'',
         [''The trigger is executed when the user enters the ActionArea.'']),
        (''ActionArea'', ''onExit'',
         [''The trigger is executed when the user leaves the ActionArea.'']),
        (''ActionRange'', ''constructor'',
         [''@param location - a single Location defining the center point of the circle.'',
          ''@param radius - the radius of the ActionRange in meters.'',
          ''@param options - Setup-Parameters to customize additional object properties.'']),
        (''Drawable2D'', ''getBoundingRectangle'',
         [''Returns the BoundingRectangle for this Drawable2D. In case of an error, null will be returned.'',
          ''@returns {BoundingRectangle} - the BoundingRectangle for the Drawable2D.'']),
        (''Location'', ''distanceTo'',
         [''Returns the shortest distance ("as the crow flies") to the Location passed as an argument, ignoring any altitude property.'',
          ''@param {Location} location - The Location the distance should be calculated for.'',
          ''@returns {number} - The numeric distance in meters.'']),
        (''Location'', ''distanceToUser'',
         [''Returns the shortest distance ("as the crow flies") to the current location of the user, ignoring any altitude property.'',
          ''If the current position of the user cannot be determined, undefined will be returned.'',
          ''@returns {number|undefined}''])]
   \<and> concat (map sentinel_documented AR) =
       [(''Drawable2D'', ''getBoundingRectangle''), (''Location'', ''distanceToUser'')]\<close>
proof -
  have "list_all (\<lambda>b. b) (map field_optional (concat (map error_fields AR)))"
    by (simp add: AR_error_fields)
  then have fields: "list_all field_optional (concat (map error_fields AR))"
    by (simp add: list_all_iff)
  have "length (map field_optional (concat (map error_fields AR))) = 13"
    by (simp add: AR_error_fields)
  then have count: "length (concat (map error_fields AR)) = 13"
    by simp
  have params: "list_all param_optional (concat (map error_params AR))"
    by (simp add: AR_error_params)
  show ?thesis
    using fields count params
    by (simp only: AR_error_field_owners AR_error_param_owners AR_result_names
        AR_documented_members AR_sentinel_documented simp_thms)
qed

text \<open>
  C6. The module declares 48 classes and 5 constants, 53 together, which is within ten
  of the sixty the specification speaks of; with its 4 type aliases it has 57
  declarations.
\<close>

theorem AR_declaration_count:
  "length (classes AR) = 48
   \<and> length (constants AR) = 5
   \<and> length AR = 57
   \<and> 60 - 10 \<le> length (classes AR) + length (constants AR)
   \<and> length (classes AR) + length (constants AR) \<le> 60 + 10"
  by (simp add: AR_classes AR_constants) (simp add: AR_def)

text \<open>
  C7. Each of the twenty-seven entities of the five clusters of the specification is
  declared as a class of the module.
\<close>

theorem AR_cluster_entities_are_classes:
  "list_all (\<lambda>n. n \<in> set (classes AR))
     [''ARchitectObject'', ''Drawable'', ''Drawable2D'', ''ARObject'', ''GeoObject'',
      ''Positionable'',
      ''Location'', ''GeoLocation'', ''RelativeLocation'', ''ActionArea'', ''ActionRange'',
      ''ImageResource'', ''Model'', ''Sound'', ''VideoDrawable'', ''HtmlDrawable'',
      ''ImageTracker'', ''ImageTrackable'', ''CloudRecognitionService'', ''InstantTracker'',
      ''InstantTrackable'', ''TargetCollectionResource'',
      ''Animation'', ''AnimationGroup'', ''PropertyAnimation'', ''ModelAnimation'',
      ''EasingCurve'']"
  by (simp only: AR_classes eval_simps)

text \<open>
  C8. \<^verbatim>\<open>Location.distanceToUser\<close> takes no argument and is declared with the result type
  \<^verbatim>\<open>number\<close> alone, while its doc comment says that \<^verbatim>\<open>undefined\<close> is returned when the
  position of the user cannot be determined.
\<close>

theorem distanceToUser_declared_number:
  \<open>lookup_member AR ''Location'' ''distanceToUser'' =
     Some (Method
       [''Returns the shortest distance ("as the crow flies") to the current location of the user, ignoring any altitude property.'',
        ''If the current position of the user cannot be determined, undefined will be returned.'',
        ''@returns {number|undefined}'']
       ''distanceToUser'' [] (Some (TName ''number'')) None)
   \<and> map_option (\<lambda>m. mentions (member_doc m) ''undefined will be returned'')
         (lookup_member AR ''Location'' ''distanceToUser'') = Some True\<close>
  by (simp add: lookup_member_def AR_def AR_decl_name)
     (simp add: AR_Location_def mentions_def)

text \<open>
  C9. The declarations with scale-gesture handlers are \<^verbatim>\<open>Drawable\<close>, \<^verbatim>\<open>ARObject\<close>,
  \<^verbatim>\<open>context\<close> and \<^verbatim>\<open>_EVENT_HANDLERS\<close>; each names them \<^verbatim>\<open>onScaleBegan\<close>, \<^verbatim>\<open>onScaleChanged\<close>
  and \<^verbatim>\<open>onscaleEnded\<close>, and no declaration of the module has a member named
  \<^verbatim>\<open>onScaleEnded\<close>.
\<close>

theorem AR_scale_handler_names:
  "map (\<lambda>d. (decl_name d, scale_handlers d)) (filter (\<lambda>d. scale_handlers d \<noteq> []) AR) =
     [(''Drawable'', [''onScaleBegan'', ''onScaleChanged'', ''onscaleEnded'']),
      (''ARObject'', [''onScaleBegan'', ''onScaleChanged'', ''onscaleEnded'']),
      (''context'', [''onScaleBegan'', ''onScaleChanged'', ''onscaleEnded'']),
      (''_EVENT_HANDLERS'', [''onScaleBegan'', ''onScaleChanged'', ''onscaleEnded''])]
   \<and> filter (\<lambda>d. declares_member d ''onScaleEnded'') AR = []"
  using AR_scale_handlers AR_no_onScaleEnded by simp

text \<open>
  C10. The single parameter of \<^verbatim>\<open>ActionArea.isInArea\<close> has the type \<^verbatim>\<open>Geolocation\<close>. The
  module declares nothing of that name; the class it declares is \<^verbatim>\<open>GeoLocation\<close>.
\<close>

theorem isInArea_parameter_type:
  "lookup_member AR ''ActionArea'' ''isInArea'' =
     Some (Method
       [''checks if a certain location is within this ActionArea.'',
        ''@param geoLocation - the GeoLocation that should be checked.'',
        ''@returns {boolean} true if the geoLocation passed to the method is within the ActionArea, false if the geoLocation passed to the method is not in the ActionArea'']
       ''isInArea'' [Param ''geoLocation'' False False (Some (TName ''Geolocation''))]
       (Some (TName ''boolean'')) None)
   \<and> ''Geolocation'' \<notin> set (map decl_name AR)
   \<and> ''GeoLocation'' \<in> set (classes AR)"
  by (simp add: AR_classes AR_names)
     (simp add: lookup_member_def AR_def AR_decl_name AR_ActionArea_def)

end
